theory Spec2Isabelle
  imports Main "HOL-Library.AList"
begin

section \<open>Python values, errors and dictionaries\<close>

text \<open>
  The scalar values a column or an attribute can hold, and the exceptions of the model.
  The code raises none explicitly; Python raises \<open>TypeError\<close> for a keyword that is not a
  string and for \<open>None + str\<close>, and \<open>AttributeError\<close> for reading, writing or deleting an
  attribute that is absent. \<open>IndexError\<close> is what Django's model constructor raises for too
  many positional values; \<open>DatabaseError\<close> stands for a failing write of the storage layer,
  \<open>IntegrityError\<close> for a row that violates a constraint of its table.
\<close>

datatype pyval = PNone | PBool bool | PInt int | PStr string

datatype error = TypeError | AttributeError | IndexError | DatabaseError | IntegrityError

text \<open>
  A Python \<open>dict\<close> is an association list with one entry per key; \<open>d[k] = v\<close> is
  \<open>AList.update k v d\<close>, which replaces the value of an existing key and appends a new one.
\<close>

type_synonym 'v pydict = "(string \<times> 'v) list"

section \<open>Model instances and audit rows\<close>

text \<open>
  A model instance. \<open>cols\<close> lists, for every field of \<open>instance._meta.fields\<close> in order,
  the pair \<open>(field.attname, getattr(instance, field.attname))\<close>: a constructed Django
  instance carries a value for each of its columns. The two transient markers are
  ordinary instance attributes: \<open>skip_history_when_saving\<close> is modelled by its presence
  (\<open>hasattr\<close>), \<open>_history_user\<close> by its value when present.
\<close>

record model_instance =
  model_name :: string
  pk :: pyval
  cols :: "pyval pydict"
  skip_history_when_saving :: bool
  history_user_attr :: "pyval option"

text \<open>
  An audit row as \<open>create_historical_record\<close> hands it to the historical manager: the
  change-type code, the actor and the snapshot of the columns. The sequence id and the
  timestamp are assigned by the database on insert; the position of the row in the table
  (a list, oldest first) stands for them.
\<close>

record audit_row =
  history_type :: string
  history_user :: pyval
  attrs :: "pyval pydict"

type_synonym history_table = "audit_row list"

section \<open>The audit recorder\<close>

text \<open>
  The loop of \<open>create_historical_record\<close>:
  \<^verbatim>\<open>attrs = {}; for field in instance._meta.fields: attrs[field.attname] = getattr(instance, field.attname)\<close>
\<close>

definition snapshot :: "model_instance \<Rightarrow> pyval pydict" where
  "snapshot i = foldl (\<lambda>d (a, v). AList.update a v d) [] (cols i)"

text \<open>
  The storage layer behind the historical manager: for a row it is asked to insert, the
  error it raises, or \<open>None\<close> when it accepts the row. Which rows it accepts is the
  business of the history table (its column types, its \<open>NOT NULL\<close> constraints), so the
  handlers take the storage as a parameter.
\<close>

type_synonym storage = "audit_row \<Rightarrow> error option"

text \<open>
  Modelled from the spec: \<open>manager.create\<close> of the historical manager (module
  \<open>simple_history.manager\<close>, not among the sources). The spec says the recorder
  "insert[s] one Audit Row via the historical manager", and that "storage errors inserting
  an audit row propagate unmodified to the caller of the triggering mutation (no local
  recovery)": either the table gains exactly that row, at its end, or the storage's error
  is raised and the table is as it was. The first component of the result is the exception
  raised, \<open>None\<close> for a normal return.
\<close>

definition manager_create ::
  "storage \<Rightarrow> string \<Rightarrow> pyval \<Rightarrow> pyval pydict \<Rightarrow> history_table \<Rightarrow> error option \<times> history_table" where
  "manager_create db t u a tbl =
     (let row = \<lparr>history_type = t, history_user = u, attrs = a\<rparr>
      in case db row of
           None \<Rightarrow> (None, tbl @ [row])
         | Some e \<Rightarrow> (Some e, tbl))"

text \<open>
  \<open>create_historical_record(self, instance, type)\<close>. The table is the one behind
  \<open>getattr(instance, self.manager_name)\<close>; \<open>getattr(instance, '_history_user', None)\<close>
  is \<open>None\<close> when the attribute is absent. The function has no \<open>try\<close>: what
  \<open>manager.create\<close> raises, it raises.
\<close>

definition create_historical_record ::
  "storage \<Rightarrow> model_instance \<Rightarrow> string \<Rightarrow> history_table \<Rightarrow> error option \<times> history_table" where
  "create_historical_record db i t tbl =
     (let history_user = (case history_user_attr i of None \<Rightarrow> PNone | Some u \<Rightarrow> u);
          attrs = snapshot i
      in manager_create db t history_user attrs tbl)"

text \<open>The row one call of the recorder asks the storage to insert.\<close>

definition audit_row_of :: "model_instance \<Rightarrow> string \<Rightarrow> audit_row" where
  "audit_row_of i t =
     \<lparr>history_type = t,
      history_user = (case history_user_attr i of None \<Rightarrow> PNone | Some u \<Rightarrow> u),
      attrs = snapshot i\<rparr>"

section \<open>The signal handlers\<close>

text \<open>
  \<open>post_save(self, instance, created, **kwargs)\<close>; \<open>raw\<close> is \<open>kwargs.get('raw', False)\<close>.
  A handler returns the exception it raises, if any, and the table after the call.
\<close>

definition post_save ::
  "storage \<Rightarrow> model_instance \<Rightarrow> bool \<Rightarrow> bool \<Rightarrow> history_table \<Rightarrow> error option \<times> history_table" where
  "post_save db i created raw tbl =
     (if \<not> created \<and> skip_history_when_saving i then (None, tbl)
      else if \<not> raw then create_historical_record db i (if created then ''+'' else ''~'') tbl
      else (None, tbl))"

definition post_delete :: "storage \<Rightarrow> model_instance \<Rightarrow> history_table \<Rightarrow> error option \<times> history_table" where
  "post_delete db i tbl = create_historical_record db i ''-'' tbl"

subsection \<open>The sequence of mutations of one source instance\<close>

text \<open>
  The events the lifecycle binder subscribes to in \<open>finalize\<close>: Django sends
  \<open>post_save(instance, created, raw)\<close> after an insert (\<open>created\<close> true) or an update, and
  \<open>post_delete(instance)\<close> after a delete. Each event carries the instance as it is at that
  moment. Every event belongs to a mutation of its own: a handler that raises fails that
  mutation, and the next mutation finds the table as the failed one left it.
\<close>

datatype event = PostSave model_instance bool bool | PostDelete model_instance

fun handle_event :: "storage \<Rightarrow> event \<Rightarrow> history_table \<Rightarrow> error option \<times> history_table" where
  "handle_event db (PostSave i created raw) tbl = post_save db i created raw tbl"
| "handle_event db (PostDelete i) tbl = post_delete db i tbl"

definition run_events :: "storage \<Rightarrow> event list \<Rightarrow> history_table \<Rightarrow> history_table" where
  "run_events db evs tbl = foldl (\<lambda>t e. snd (handle_event db e t)) tbl evs"

text \<open>
  What the handlers do, event by event: whether the recorder is called, and with which
  row.
\<close>

fun recorded :: "event \<Rightarrow> bool" where
  "recorded (PostSave i created raw) = (if created then \<not> raw else \<not> raw \<and> \<not> skip_history_when_saving i)"
| "recorded (PostDelete i) = True"

fun event_instance :: "event \<Rightarrow> model_instance" where
  "event_instance (PostSave i created raw) = i"
| "event_instance (PostDelete i) = i"

fun change_code :: "event \<Rightarrow> string" where
  "change_code (PostSave i created raw) = (if created then ''+'' else ''~'')"
| "change_code (PostDelete i) = ''-''"

definition audit_of :: "event \<Rightarrow> audit_row" where
  "audit_of e = audit_row_of (event_instance e) (change_code e)"

text \<open>
  The reading of the specification: an insert is suppressed by the marker alone, an update
  by the marker or the raw flag, a delete never.
\<close>

fun spec_non_suppressed :: "event \<Rightarrow> bool" where
  "spec_non_suppressed (PostSave i created raw) =
     (if created then \<not> skip_history_when_saving i
      else \<not> skip_history_when_saving i \<and> \<not> raw)"
| "spec_non_suppressed (PostDelete i) = True"

text \<open>
  The same reading with the raw flag applied to inserts as well: a save is suppressed by
  the marker or by the raw flag, a delete never. \<open>marked_insert\<close> singles out the insert
  of an instance that carries the marker.
\<close>

fun non_suppressed :: "event \<Rightarrow> bool" where
  "non_suppressed (PostSave i created raw) = (\<not> skip_history_when_saving i \<and> \<not> raw)"
| "non_suppressed (PostDelete i) = True"

fun marked_insert :: "event \<Rightarrow> bool" where
  "marked_insert (PostSave i created raw) = (created \<and> skip_history_when_saving i)"
| "marked_insert (PostDelete i) = False"

subsection \<open>Saving without a historical record\<close>

text \<open>
  \<open>save_without_historical_record(self, *args, **kwargs)\<close>, the method \<open>add_extra_methods\<close>
  installs. \<open>self.save\<close> is the model's own save, a parameter here: it may change the
  instance and the world \<open>w\<close>, and it returns a value or raises. The \<open>finally\<close> clause
  runs on both exits: \<open>del self.skip_history_when_saving\<close> removes the attribute, and
  raises \<open>AttributeError\<close> (replacing whatever the save returned or raised) when the save
  has removed it already.
\<close>

definition save_without_historical_record ::
  "(model_instance \<Rightarrow> 'w \<Rightarrow> (error + 'r) \<times> model_instance \<times> 'w) \<Rightarrow>
     model_instance \<Rightarrow> 'w \<Rightarrow> (error + 'r) \<times> model_instance \<times> 'w" where
  "save_without_historical_record save self w =
     (let self1 = self\<lparr>skip_history_when_saving := True\<rparr>;
          (ret, self2, w') = save self1 w
      in if skip_history_when_saving self2
         then (ret, self2\<lparr>skip_history_when_saving := False\<rparr>, w')
         else (Inl AttributeError, self2, w'))"

text \<open>
  Django's \<open>Model.save\<close> as far as the handlers see it: the write either fails, raising
  before any signal is sent, or succeeds and \<open>post_save\<close> is sent with the \<open>created\<close>
  flag and \<open>raw = False\<close>; what the handler raises, the save raises.
\<close>

definition model_save :: "storage \<Rightarrow> bool \<Rightarrow> bool \<Rightarrow> model_instance \<Rightarrow> history_table \<Rightarrow>
    (error + pyval) \<times> model_instance \<times> history_table" where
  "model_save db write_ok created self tbl =
     (if write_ok then
        (case post_save db self created False tbl of
           (None, tbl') \<Rightarrow> (Inr PNone, self, tbl')
         | (Some e, tbl') \<Rightarrow> (Inl e, self, tbl'))
      else (Inl DatabaseError, self, tbl))"

subsection \<open>Membership changes\<close>

text \<open>
  The sender of \<open>m2m_changed\<close> is the through model (the join schema). Its class
  dictionary \<open>sender.__dict__\<close> holds, among other attributes, one
  \<open>ReverseSingleRelatedObjectDescriptor\<close> per foreign key, of which the handler reads
  \<open>field.related.parent_model\<close>; \<open>objects\<close> are the rows of the join table.
\<close>

datatype class_attr = ReverseSingleRelatedObjectDescriptor string | OtherAttr

record through_model =
  class_dict :: "class_attr pydict"
  objects :: "model_instance list"

text \<open>
  Lines 196 to 202: the loop over \<open>sender.__dict__.items()\<close> that looks for the two
  descriptor names, starting from \<open>(None, None)\<close>. A later match overwrites an earlier
  one; the target test comes first.
\<close>

fun m2m_field_names ::
  "class_attr pydict \<Rightarrow> string \<Rightarrow> string \<Rightarrow> string option \<times> string option \<Rightarrow>
     string option \<times> string option" where
  "m2m_field_names [] model itype (source_field_name, target_field_name) =
     (source_field_name, target_field_name)"
| "m2m_field_names ((field_name, field_value) # rest) model itype (source_field_name, target_field_name) =
     (case field_value of
        ReverseSingleRelatedObjectDescriptor parent_model \<Rightarrow>
          if parent_model = model
          then m2m_field_names rest model itype (source_field_name, Some field_name)
          else if parent_model = itype
          then m2m_field_names rest model itype (Some field_name, target_field_name)
          else m2m_field_names rest model itype (source_field_name, target_field_name)
      | OtherAttr \<Rightarrow> m2m_field_names rest model itype (source_field_name, target_field_name))"

text \<open>
  The two queryset filters of Django, on a join row whose foreign key \<open>f\<close> is stored in the
  column \<open>f_id\<close>: \<open>filter(f=instance)\<close> keeps the rows that point at the instance,
  \<open>filter(f__id__in=pk_set)\<close> the rows whose referenced id is in the set.
\<close>

definition filter_related :: "string \<Rightarrow> model_instance \<Rightarrow> model_instance list \<Rightarrow> model_instance list" where
  "filter_related f inst items = filter (\<lambda>it. map_of (cols it) (f @ ''_id'') = Some (pk inst)) items"

definition filter_id_in :: "string \<Rightarrow> pyval list \<Rightarrow> model_instance list \<Rightarrow> model_instance list" where
  "filter_id_in f pk_set items =
     filter (\<lambda>it. case map_of (cols it) (f @ ''_id'') of None \<Rightarrow> False | Some v \<Rightarrow> v \<in> set pk_set) items"

text \<open>
  \<open>kwargs['pk_set']\<close> is a set of primary keys or \<open>None\<close>; both \<open>None\<close> and the empty set
  are false in a condition.
\<close>

definition truthy_set :: "pyval list option \<Rightarrow> bool" where
  "truthy_set s = (case s of None \<Rightarrow> False | Some xs \<Rightarrow> xs \<noteq> [])"

text \<open>
  Lines 203 to 205. \<open>sender.objects.filter(**{source_field_name: instance})\<close> raises
  \<open>TypeError\<close> when the name is still \<open>None\<close> (a keyword must be a string), and so does
  \<open>target_field_name + '__id__in'\<close> when the target name is \<open>None\<close>.
\<close>

definition m2m_items ::
  "model_instance \<Rightarrow> through_model \<Rightarrow> string \<Rightarrow> pyval list option \<Rightarrow> error + model_instance list" where
  "m2m_items inst sender model pk_set =
     (case m2m_field_names (class_dict sender) model (model_name inst) (None, None) of
        (None, target_field_name) \<Rightarrow> Inl TypeError
      | (Some source_field_name, target_field_name) \<Rightarrow>
          (let items = filter_related source_field_name inst (objects sender) in
           if truthy_set pk_set then
             (case target_field_name of
                None \<Rightarrow> Inl TypeError
              | Some t \<Rightarrow> Inr (filter_id_in t (case pk_set of None \<Rightarrow> [] | Some xs \<Rightarrow> xs) items))
           else Inr items))"

text \<open>
  Lines 206 to 214: the loop over the matched rows. The \<open>return\<close> of the \<open>post_add\<close>
  branch leaves the loop and the handler, and so does an exception of the recorder; an
  action other than the three does nothing.
\<close>

fun m2m_record_items ::
  "storage \<Rightarrow> string \<Rightarrow> model_instance list \<Rightarrow> history_table \<Rightarrow> error option \<times> history_table" where
  "m2m_record_items db action [] tbl = (None, tbl)"
| "m2m_record_items db action (item # items) tbl =
     (if action = ''post_add'' then
        (if skip_history_when_saving item then (None, tbl)
         else (case create_historical_record db item ''+'' tbl of
                 (Some e, tbl') \<Rightarrow> (Some e, tbl')
               | (None, tbl') \<Rightarrow> m2m_record_items db action items tbl'))
      else if action = ''pre_remove'' then
        (case create_historical_record db item ''-'' tbl of
           (Some e, tbl') \<Rightarrow> (Some e, tbl')
         | (None, tbl') \<Rightarrow> m2m_record_items db action items tbl')
      else if action = ''pre_clear'' then
        (case create_historical_record db item ''-'' tbl of
           (Some e, tbl') \<Rightarrow> (Some e, tbl')
         | (None, tbl') \<Rightarrow> m2m_record_items db action items tbl')
      else m2m_record_items db action items tbl)"

text \<open>
  \<open>m2m_changed(self, action, instance, sender, **kwargs)\<close> with \<open>kwargs['model']\<close> and
  \<open>kwargs['pk_set']\<close>. The two \<open>TypeError\<close>s are raised before the first row is written.
\<close>

definition m2m_changed ::
  "storage \<Rightarrow> string \<Rightarrow> model_instance \<Rightarrow> through_model \<Rightarrow> string \<Rightarrow> pyval list option \<Rightarrow>
     history_table \<Rightarrow> error option \<times> history_table" where
  "m2m_changed db action inst sender model pk_set tbl =
     (case m2m_items inst sender model pk_set of
        Inl e \<Rightarrow> (Some e, tbl)
      | Inr items \<Rightarrow> m2m_record_items db action items tbl)"

section \<open>Column descriptors\<close>

text \<open>
  The class of a column descriptor, as far as the code tests it with \<open>isinstance\<close>.
  \<open>OneToOneField\<close> is Django's subclass of \<open>ForeignKey\<close>; \<open>CustomForeignKey p\<close> is the
  class \<open>get_custom_fk_class(p)\<close> builds, a subclass of \<open>p\<close>; \<open>Subclass n p\<close> is any
  other named subclass of \<open>p\<close> (\<open>ImageField\<close> of \<open>FileField\<close>); \<open>OtherField n\<close> is a
  field class unrelated to the ones named here (\<open>CharField\<close>, \<open>DateTimeField\<close>).
\<close>

datatype field_class =
    AutoField | IntegerField | TextField | FileField | ForeignKey | OneToOneField
  | CustomForeignKey field_class
  | Subclass string field_class
  | OtherField string

fun issubclass :: "field_class \<Rightarrow> field_class \<Rightarrow> bool" where
  "issubclass (CustomForeignKey p) d = (d = CustomForeignKey p \<or> issubclass p d)"
| "issubclass (Subclass n p) d = (d = Subclass n p \<or> issubclass p d)"
| "issubclass OneToOneField d = (d = OneToOneField \<or> d = ForeignKey)"
| "issubclass c d = (d = c)"

definition get_custom_fk_class :: "field_class \<Rightarrow> field_class" where
  "get_custom_fk_class parent_type = CustomForeignKey parent_type"

text \<open>
  A column descriptor: its class and its instance dictionary. The attributes the code
  reads or writes by name are record fields (every Django field that belongs to a model
  has them; \<open>auto_now\<close> and \<open>auto_now_add\<close> exist on date fields only, hence the option);
  \<open>unique_attr\<close> is the attribute \<open>_unique\<close>; \<open>others\<close> is the rest of \<open>__dict__\<close>
  (\<open>max_length\<close>, \<open>choices\<close>, \<open>validators\<close>, ...). \<open>rel\<close> refers to the relation
  object of a relational column: by address (\<open>'r = nat\<close>) where aliasing matters, by value
  (\<open>'r = rel_obj\<close>) where the code only reads it.
\<close>

record 'r field =
  cls :: field_class
  name :: string
  attname :: string
  rel :: "'r option"
  null :: bool
  blank :: bool
  auto_now :: "bool option"
  auto_now_add :: "bool option"
  primary_key :: bool
  unique_attr :: bool
  db_index :: bool
  serialize :: bool
  others :: "pyval pydict"

text \<open>A relation object: \<open>to\<close> names the referenced model.\<close>

record rel_obj =
  to :: string
  related_name :: "string option"

text \<open>Django's property \<open>Field.unique\<close>: \<open>self._unique or self.primary_key\<close>.\<close>

definition unique :: "'r field \<Rightarrow> bool" where
  "unique f = (unique_attr f \<or> primary_key f)"

subsection \<open>The field transformer\<close>

text \<open>
  \<open>transform_field(field)\<close> assigns attributes of the object it is given; the function
  returns the object's new state.
\<close>

definition transform_field :: "'r field \<Rightarrow> 'r field" where
  "transform_field field =
     (let field = field\<lparr>name := attname field\<rparr>;
          field = (if issubclass (cls field) AutoField then field\<lparr>cls := IntegerField\<rparr>
                   else if issubclass (cls field) FileField then field\<lparr>cls := TextField\<rparr>
                   else field);
          field = field\<lparr>auto_now := Some False\<rparr>;
          field = field\<lparr>auto_now_add := Some False\<rparr>
      in if primary_key field \<or> unique field
         then field\<lparr>primary_key := False, unique_attr := False, db_index := True,
                    serialize := True\<rparr>
         else field)"

subsection \<open>Copying the fields of a model\<close>

text \<open>
  \<open>copy_fields\<close> works on shared, mutable objects, so it is modelled on an explicit store:
  a list of objects, an address being an index. \<open>copy.copy(x)\<close> allocates a new object
  with the attributes of \<open>x\<close> (a shallow copy) at the end of the store, and
  \<open>copy.copy(None)\<close> is \<open>None\<close>. An assignment \<open>x.a = v\<close> replaces the object at the
  address of \<open>x\<close>.
\<close>

datatype obj = FieldObj "nat field" | RelObj rel_obj

type_synonym heap = "obj list"

definition heap_get :: "heap \<Rightarrow> nat \<Rightarrow> obj option" where
  "heap_get h a = (if a < length h then Some (h ! a) else None)"

definition copy_copy :: "heap \<Rightarrow> nat \<Rightarrow> (nat \<times> heap) option" where
  "copy_copy h a = (case heap_get h a of None \<Rightarrow> None | Some x \<Rightarrow> Some (length h, h @ [x]))"

text \<open>\<open>copy.copy(field.rel)\<close>, where \<open>field.rel\<close> is \<open>None\<close> or the address of an object.\<close>

definition copy_rel :: "nat option \<Rightarrow> heap \<Rightarrow> (nat option \<times> heap) option" where
  "copy_rel r h =
     (case r of
        None \<Rightarrow> Some (None, h)
      | Some ra \<Rightarrow> (case copy_copy h ra of None \<Rightarrow> None | Some (ra', h') \<Rightarrow> Some (Some ra', h')))"

text \<open>
  One pass of the loop body of \<open>copy_fields\<close>, lines 126 to 137, for the field at address
  \<open>a\<close> of \<open>model._meta.fields\<close>; the result is the pair \<open>(field.name, field)\<close> stored into
  the dictionary, with the store after the pass. An address that holds no object of the
  expected kind cannot arise from a model; the model answers \<open>AttributeError\<close> there.
  \<open>field.rel.related_name = '+'\<close> raises \<open>AttributeError\<close> when \<open>field.rel\<close> is \<open>None\<close>.
\<close>

definition copy_field :: "nat \<Rightarrow> heap \<Rightarrow> (error + string \<times> nat) \<times> heap" where
  "copy_field a h =
     (case heap_get h a of
        Some (FieldObj f0) \<Rightarrow>
          (let field = length h;
               h = h @ [FieldObj f0]
           in case copy_rel (rel f0) h of
                None \<Rightarrow> (Inl AttributeError, h)
              | Some (new_rel, h) \<Rightarrow>
                  (let f = f0\<lparr>rel := new_rel\<rparr>;
                       h = h[field := FieldObj f]
                   in if issubclass (cls f) ForeignKey then
                        (let f = f\<lparr>cls := get_custom_fk_class (cls f)\<rparr>;
                             h = h[field := FieldObj f]
                         in case new_rel of
                              None \<Rightarrow> (Inl AttributeError, h)
                            | Some ra \<Rightarrow>
                                (case heap_get h ra of
                                   Some (RelObj r) \<Rightarrow>
                                     (let h = h[ra := RelObj (r\<lparr>related_name := Some ''+''\<rparr>)];
                                          f = f\<lparr>null := True, blank := True\<rparr>;
                                          f = transform_field f;
                                          h = h[field := FieldObj f]
                                      in (Inr (name f, field), h))
                                 | _ \<Rightarrow> (Inl AttributeError, h)))
                      else
                        (let f = transform_field f;
                             h = h[field := FieldObj f]
                         in (Inr (name f, field), h))))
      | _ \<Rightarrow> (Inl AttributeError, h))"

text \<open>
  \<open>copy_fields(self, model)\<close>: the loop over \<open>model._meta.fields\<close> (a list of addresses),
  filling the dictionary \<open>fields\<close> (here \<open>flds\<close>); an exception leaves the loop with the
  store as it is at that point.
\<close>

fun copy_fields_loop :: "nat list \<Rightarrow> nat pydict \<Rightarrow> heap \<Rightarrow> (error + nat pydict) \<times> heap" where
  "copy_fields_loop [] flds h = (Inr flds, h)"
| "copy_fields_loop (a # rest) flds h =
     (case copy_field a h of
        (Inl e, h') \<Rightarrow> (Inl e, h')
      | (Inr (k, field), h') \<Rightarrow> copy_fields_loop rest (AList.update k field flds) h')"

definition copy_fields :: "nat list \<Rightarrow> heap \<Rightarrow> (error + nat pydict) \<times> heap" where
  "copy_fields model_fields h = copy_fields_loop model_fields [] h"

text \<open>The attribute names of the columns stored at the addresses \<open>fs\<close>.\<close>

definition column_attnames :: "heap \<Rightarrow> nat list \<Rightarrow> string set" where
  "column_attnames h fs = {attname f | f a. a \<in> set fs \<and> heap_get h a = Some (FieldObj f)}"

text \<open>
  The \<open>NOT NULL\<close> constraints of a history table built from the copied columns
  \<open>flds\<close>: the database refuses, with \<open>IntegrityError\<close>, a row that holds \<open>None\<close> in
  a column whose descriptor has \<open>null = False\<close>. (\<open>copy_fields\<close> sets \<open>null = True\<close>
  on foreign keys only.) \<open>accept_all\<close> is a storage without constraints.
\<close>

definition not_null_storage :: "heap \<Rightarrow> nat pydict \<Rightarrow> storage" where
  "not_null_storage h flds row =
     (if list_ex (\<lambda>(k, a). case heap_get h a of
                              Some (FieldObj f) \<Rightarrow> \<not> null f \<and> map_of (attrs row) k = Some PNone
                            | _ \<Rightarrow> False) flds
      then Some IntegrityError else None)"

definition accept_all :: storage where
  "accept_all row = None"

subsection \<open>The foreign key downgrader\<close>

text \<open>
  The metadata of a model that \<open>get_field\<close> reads: \<open>_meta.object_name\<close> and \<open>_meta.pk\<close>.
  Models refer to each other through \<open>rel.to\<close>; the registry resolves such a reference,
  and answers \<open>None\<close> for one that is not a prepared model (an unresolved lazy reference
  is a string and has no \<open>_meta\<close>: \<open>AttributeError\<close>).
\<close>

record model_meta =
  object_name :: string
  meta_pk :: "rel_obj field"

type_synonym registry = "string \<Rightarrow> model_meta option"

text \<open>\<open>not key.startswith('_')\<close>; the second prefix \<open>'__'\<close> of line 253 adds nothing.\<close>

definition public_key :: "string \<Rightarrow> bool" where
  "public_key key = (case key of [] \<Rightarrow> True | c # _ \<Rightarrow> c \<noteq> CHR ''_'')"

text \<open>
  The loop of \<open>get_one_to_one_field\<close>, lines 234 to 237: every attribute of
  \<open>to_field.__dict__\<close> whose name does not start with an underscore is set on
  \<open>temp_field\<close>. Of the attributes kept as record fields only \<open>_unique\<close> is skipped; the
  class is not an entry of \<open>__dict__\<close>.
\<close>

definition set_public_attrs :: "'r field \<Rightarrow> 'r field \<Rightarrow> 'r field" where
  "set_public_attrs to_field temp_field =
     temp_field\<lparr>name := name to_field, attname := attname to_field, rel := rel to_field,
       null := null to_field, blank := blank to_field,
       auto_now := (case auto_now to_field of None \<Rightarrow> auto_now temp_field | Some b \<Rightarrow> Some b),
       auto_now_add :=
         (case auto_now_add to_field of None \<Rightarrow> auto_now_add temp_field | Some b \<Rightarrow> Some b),
       primary_key := primary_key to_field, db_index := db_index to_field,
       serialize := serialize to_field,
       others := foldl (\<lambda>d (key, val). if public_key key then AList.update key val d else d)
                   (others temp_field) (others to_field)\<rparr>"

definition excluded_attributes :: "string list" where
  "excluded_attributes =
     [''rel'', ''creation_counter'', ''validators'', ''error_messages'', ''attname'', ''column'',
      ''help_text'', ''name'', ''model'', ''unique_for_year'', ''unique_for_date'',
      ''unique_for_month'', ''db_tablespace'', ''db_index'', ''db_column'', ''default'',
      ''auto_created'', ''null'', ''blank'']"

text \<open>
  The loop of \<open>get_field\<close>, lines 275 to 279: as above, without the excluded attributes.
  Of the record fields, \<open>rel\<close>, \<open>attname\<close>, \<open>name\<close>, \<open>db_index\<close>, \<open>null\<close> and \<open>blank\<close> are
  excluded and \<open>_unique\<close> is skipped for its underscore.
\<close>

definition set_scalar_attrs :: "'r field \<Rightarrow> 'r field \<Rightarrow> 'r field" where
  "set_scalar_attrs to_field field =
     field\<lparr>auto_now := (case auto_now to_field of None \<Rightarrow> auto_now field | Some b \<Rightarrow> Some b),
       auto_now_add :=
         (case auto_now_add to_field of None \<Rightarrow> auto_now_add field | Some b \<Rightarrow> Some b),
       primary_key := primary_key to_field,
       serialize := serialize to_field,
       others := foldl (\<lambda>d (key, val).
                    if public_key key \<and> key \<notin> set excluded_attributes
                    then AList.update key val d else d)
                   (others field) (others to_field)\<rparr>"

text \<open>
  \<open>get_field(self, other, cls)\<close> with the body of \<open>get_one_to_one_field\<close> in its first
  branch (the two call each other). \<open>new_field c n\<close> is Django's constructor
  \<open>self.__class__(n)\<close>, a fresh relational field of class \<open>c\<close> that refers to the model
  named \<open>n\<close>. The recursion follows \<open>rel.to._meta.pk\<close> from model to model and need not end;
  \<open>None\<close> is the run that does not return. The result is the state of the object the
  call returns (\<open>self\<close> itself in the last two branches). The depth of the interpreter's
  call stack is taken as unbounded.
\<close>

partial_function (option) get_field ::
  "(field_class \<Rightarrow> string \<Rightarrow> rel_obj field) \<Rightarrow> registry \<Rightarrow> rel_obj field \<Rightarrow>
     (error + rel_obj field) option" where
  "get_field new_field models self =
     (case rel self of
        None \<Rightarrow> Some (Inl AttributeError)
      | Some r \<Rightarrow>
          (case models (to r) of
             None \<Rightarrow> Some (Inl AttributeError)
           | Some m \<Rightarrow>
               (let to_field = meta_pk m in
                if issubclass (cls to_field) OneToOneField then
                  (case rel to_field of
                     None \<Rightarrow> Some (Inl AttributeError)
                   | Some r' \<Rightarrow>
                       (case models (to r') of
                          None \<Rightarrow> Some (Inl AttributeError)
                        | Some m' \<Rightarrow>
                            get_field new_field models
                              (set_public_attrs to_field (new_field (cls self) (object_name m')))))
                else if issubclass (cls to_field) AutoField then
                  Some (Inr (self\<lparr>cls := IntegerField\<rparr>))
                else
                  Some (Inr (set_scalar_attrs to_field (self\<lparr>cls := cls to_field\<rparr>))))))"

text \<open>\<open>get_one_to_one_field(self, to_field, other)\<close>, lines 229 to 240.\<close>

definition get_one_to_one_field ::
  "(field_class \<Rightarrow> string \<Rightarrow> rel_obj field) \<Rightarrow> registry \<Rightarrow> rel_obj field \<Rightarrow> rel_obj field \<Rightarrow>
     (error + rel_obj field) option" where
  "get_one_to_one_field new_field models self to_field =
     (case rel to_field of
        None \<Rightarrow> Some (Inl AttributeError)
      | Some r' \<Rightarrow>
          (case models (to r') of
             None \<Rightarrow> Some (Inl AttributeError)
           | Some m' \<Rightarrow>
               (let temp_field = new_field (cls self) (object_name m');
                    temp_field = set_public_attrs to_field temp_field
                in get_field new_field models temp_field)))"

text \<open>
  The length of a chain of one-to-one primary keys: from the model \<open>m\<close>, at most \<open>n\<close>
  links lead to a model whose primary key is not a one-to-one relation.
\<close>

fun resolves_within :: "registry \<Rightarrow> nat \<Rightarrow> string \<Rightarrow> bool" where
  "resolves_within models 0 m =
     (case models m of
        None \<Rightarrow> False
      | Some meta \<Rightarrow> \<not> issubclass (cls (meta_pk meta)) OneToOneField)"
| "resolves_within models (Suc n) m =
     (case models m of
        None \<Rightarrow> False
      | Some meta \<Rightarrow>
          if issubclass (cls (meta_pk meta)) OneToOneField
          then (case rel (meta_pk meta) of
                  None \<Rightarrow> False
                | Some r \<Rightarrow> resolves_within models n (to r))
          else True)"

section \<open>The history schema\<close>

subsection \<open>Meta options\<close>

text \<open>
  The binder object: \<open>HistoricalRecords(verbose_name=None, m2m_fields=None)\<close>.
\<close>

record historical_records =
  user_set_verbose_name :: "string option"
  m2m_fields :: "string list option"

record meta_options =
  meta_ordering :: "string list"
  meta_verbose_name :: string

text \<open>
  \<open>get_meta_options(self, model)\<close>; the second argument is \<open>str(model._meta.verbose_name)\<close>.
  \<open>None\<close> and the empty string are false in the condition.
\<close>

definition get_meta_options :: "historical_records \<Rightarrow> string \<Rightarrow> meta_options" where
  "get_meta_options self model_verbose_name =
     \<lparr>meta_ordering = [''-history_date'', ''-history_id''],
      meta_verbose_name =
        (case user_set_verbose_name self of
           None \<Rightarrow> ''historical '' @ model_verbose_name
         | Some v \<Rightarrow> if v \<noteq> [] then v else ''historical '' @ model_verbose_name)\<rparr>"

text \<open>
  An audit row as stored, with the two columns the database fills in, and the meaning
  Django gives to \<open>Meta.ordering\<close>: the terms are compared one after the other, a leading
  \<open>'-'\<close> reverses a term, and a later term decides only where the earlier ones tie. A term
  that names neither of the two columns leaves the rows unordered here.
\<close>

record stored_row =
  history_id :: int
  history_date :: int
  stored :: audit_row

definition order_column :: "string \<Rightarrow> stored_row \<Rightarrow> int option" where
  "order_column c r =
     (if c = ''history_date'' then Some (history_date r)
      else if c = ''history_id'' then Some (history_id r)
      else None)"

fun sorts_before :: "string list \<Rightarrow> stored_row \<Rightarrow> stored_row \<Rightarrow> bool" where
  "sorts_before [] a b = False"
| "sorts_before (t # ts) a b =
     (let (descending, c) = (case t of
                               [] \<Rightarrow> (False, [])
                             | x # xs \<Rightarrow> if x = CHR ''-'' then (True, xs) else (False, x # xs))
      in case (order_column c a, order_column c b) of
           (Some u, Some v) \<Rightarrow>
             if u = v then sorts_before ts a b
             else if descending then v < u else u < v
         | _ \<Rightarrow> sorts_before ts a b)"

subsection \<open>Materializing an instance from an audit row\<close>

text \<open>
  A source model as its constructor sees it: for every field of \<open>_meta.fields\<close>, in order,
  the attribute name and the default value, and the attribute name of the primary key.
\<close>

record source_model =
  source_name :: string
  source_fields :: "pyval pydict"
  source_pk :: string

definition new_instance :: "source_model \<Rightarrow> pyval pydict \<Rightarrow> model_instance" where
  "new_instance model cs =
     \<lparr>model_name = source_name model,
      pk = (case map_of cs (source_pk model) of None \<Rightarrow> PNone | Some v \<Rightarrow> v),
      cols = cs, skip_history_when_saving = False, history_user_attr = None\<rparr>"

text \<open>
  Django's model constructor. \<open>model(**kwargs)\<close> gives every field the value passed under
  its attribute name, or its default, and raises \<open>TypeError\<close> for a keyword that names no
  field. \<open>model(*args)\<close> gives the fields the values in order, the remaining fields their
  defaults, and raises \<open>IndexError\<close> when there are more values than fields.
\<close>

definition model_init_kwargs :: "source_model \<Rightarrow> pyval pydict \<Rightarrow> error + model_instance" where
  "model_init_kwargs model kwargs =
     (if list_all (\<lambda>k. k \<in> set (map fst (source_fields model))) (map fst kwargs)
      then Inr (new_instance model
             (map (\<lambda>(a, dflt). (a, case map_of kwargs a of None \<Rightarrow> dflt | Some v \<Rightarrow> v))
                (source_fields model)))
      else Inl TypeError)"

fun assign_args :: "pyval pydict \<Rightarrow> pyval list \<Rightarrow> pyval pydict" where
  "assign_args [] vs = []"
| "assign_args ((a, dflt) # fs) [] = (a, dflt) # assign_args fs []"
| "assign_args ((a, dflt) # fs) (v # vs) = (a, v) # assign_args fs vs"

definition model_init_args :: "source_model \<Rightarrow> pyval list \<Rightarrow> error + model_instance" where
  "model_init_args model args =
     (if length (source_fields model) < length args then Inl IndexError
      else Inr (new_instance model (assign_args (source_fields model) args)))"

text \<open>
  \<open>getattr(self, k)\<close> on an audit row, for the name of a copied column, and the
  comprehension \<open>[(k, getattr(self, k)) for k in ks]\<close>, which stops at the first exception.
\<close>

definition getattr_row :: "audit_row \<Rightarrow> string \<Rightarrow> error + pyval" where
  "getattr_row self k = (case map_of (attrs self) k of None \<Rightarrow> Inl AttributeError | Some v \<Rightarrow> Inr v)"

fun getattrs :: "audit_row \<Rightarrow> string list \<Rightarrow> error + pyval pydict" where
  "getattrs self [] = Inr []"
| "getattrs self (k # ks) =
     (case getattr_row self k of
        Inl e \<Rightarrow> Inl e
      | Inr v \<Rightarrow> (case getattrs self ks of Inl e \<Rightarrow> Inl e | Inr kvs \<Rightarrow> Inr ((k, v) # kvs)))"

text \<open>The value an audit row stores for a column it has.\<close>

definition stored_value :: "audit_row \<Rightarrow> string \<Rightarrow> pyval" where
  "stored_value row a = the (map_of (attrs row) a)"

text \<open>\<open>dict(pairs)\<close>: a later pair replaces an earlier one with the same key.\<close>

definition py_dict :: "pyval pydict \<Rightarrow> pyval pydict" where
  "py_dict pairs = foldl (\<lambda>d (k, v). AList.update k v d) [] pairs"

text \<open>
  \<open>get_instance(self)\<close> of \<open>get_extra_fields\<close>, the property \<open>instance\<close> of an audit row:
  \<open>model(**dict([(k, getattr(self, k)) for k in fields]))\<close>, where \<open>fields\<close> is the
  dictionary \<open>copy_fields\<close> returned (only its keys are used).
\<close>

definition get_instance :: "source_model \<Rightarrow> 'a pydict \<Rightarrow> audit_row \<Rightarrow> error + model_instance" where
  "get_instance model flds self =
     (case getattrs self (map fst flds) of
        Inl e \<Rightarrow> Inl e
      | Inr kvs \<Rightarrow> model_init_kwargs model (py_dict kvs))"

text \<open>
  \<open>HistoricalObjectDescriptor.__get__(self, instance, owner)\<close>, the attribute
  \<open>history_object\<close> of an audit row: the values of the model's fields, in order, passed
  to the constructor as positional arguments.
\<close>

definition history_object :: "source_model \<Rightarrow> audit_row \<Rightarrow> error + model_instance" where
  "history_object model inst =
     (case getattrs inst (map fst (source_fields model)) of
        Inl e \<Rightarrow> Inl e
      | Inr kvs \<Rightarrow> model_init_args model (map snd kvs))"

section \<open>Example data\<close>

text \<open>
  The scenarios of the specification: a \<open>Widget(name, owner)\<close>, and a many-to-many relation
  \<open>Team.members\<close> through \<open>Membership(team, account)\<close>. \<open>Friendship\<close> joins
  \<open>Person\<close> with itself, so both of its descriptors name the same parent model.
\<close>

definition widget :: model_instance where
  "widget = \<lparr>model_name = ''Widget'', pk = PInt 1,
     cols = [(''id'', PInt 1), (''name'', PStr ''A''), (''owner_id'', PInt 7)],
     skip_history_when_saving = False, history_user_attr = None\<rparr>"

definition team :: model_instance where
  "team = \<lparr>model_name = ''Team'', pk = PInt 1,
     cols = [(''id'', PInt 1), (''title'', PStr ''T'')],
     skip_history_when_saving = False, history_user_attr = None\<rparr>"

definition member_row :: "int \<Rightarrow> int \<Rightarrow> bool \<Rightarrow> model_instance" where
  "member_row n account marked = \<lparr>model_name = ''Membership'', pk = PInt n,
     cols = [(''id'', PInt n), (''team_id'', PInt 1), (''account_id'', PInt account)],
     skip_history_when_saving = marked, history_user_attr = None\<rparr>"

definition membership :: through_model where
  "membership = \<lparr>class_dict = [(''__module__'', OtherAttr),
       (''team'', ReverseSingleRelatedObjectDescriptor ''Team''),
       (''account'', ReverseSingleRelatedObjectDescriptor ''Account'')],
     objects = [member_row 1 10 False, member_row 2 11 True, member_row 3 12 False]\<rparr>"

definition membership_one_sided :: through_model where
  "membership_one_sided = \<lparr>class_dict = [(''__module__'', OtherAttr),
       (''team'', ReverseSingleRelatedObjectDescriptor ''Team'')],
     objects = [member_row 1 10 False]\<rparr>"

definition alice :: model_instance where
  "alice = \<lparr>model_name = ''Person'', pk = PInt 1,
     cols = [(''id'', PInt 1)],
     skip_history_when_saving = False, history_user_attr = None\<rparr>"

definition friendship :: through_model where
  "friendship = \<lparr>class_dict =
       [(''from_person'', ReverseSingleRelatedObjectDescriptor ''Person''),
        (''to_person'', ReverseSingleRelatedObjectDescriptor ''Person'')],
     objects = [\<lparr>model_name = ''Friendship'', pk = PInt 1,
       cols = [(''id'', PInt 1), (''from_person_id'', PInt 1), (''to_person_id'', PInt 2)],
       skip_history_when_saving = False, history_user_attr = None\<rparr>]\<rparr>"

text \<open>
  Column descriptors: an auto-incrementing primary key, a one-to-one primary key, a file
  column and a unique timestamp; the store of the \<open>Widget\<close> model with its columns
  \<open>id\<close>, \<open>name\<close> and \<open>owner\<close> and the relation object of the latter; the model as
  its constructor sees it, and the dictionary \<open>copy_fields\<close> returns for it.
\<close>

definition auto_pk :: "'r field" where
  "auto_pk =
     \<lparr>cls = AutoField, name = ''id'', attname = ''id'', rel = None,
      null = False, blank = True, auto_now = None, auto_now_add = None,
      primary_key = True, unique_attr = False, db_index = False, serialize = True,
      others = [(''max_length'', PNone)]\<rparr>"

definition one_to_one_pk :: "string \<Rightarrow> string \<Rightarrow> rel_obj field" where
  "one_to_one_pk n target =
     \<lparr>cls = OneToOneField, name = n, attname = n @ ''_id'',
      rel = Some \<lparr>to = target, related_name = None\<rparr>,
      null = False, blank = False, auto_now = None, auto_now_add = None,
      primary_key = True, unique_attr = True, db_index = True, serialize = True,
      others = [(''max_length'', PNone), (''_verbose_name'', PNone)]\<rparr>"

definition attachment_field :: "'r field" where
  "attachment_field =
     \<lparr>cls = Subclass ''ImageField'' FileField, name = ''scan'', attname = ''scan'', rel = None,
      null = False, blank = False, auto_now = None, auto_now_add = None,
      primary_key = False, unique_attr = False, db_index = False, serialize = True,
      others = [(''max_length'', PInt 100), (''upload_to'', PStr ''scans'')]\<rparr>"

definition stamp_field :: "'r field" where
  "stamp_field =
     \<lparr>cls = OtherField ''DateTimeField'', name = ''updated'', attname = ''updated'', rel = None,
      null = False, blank = True, auto_now = Some True, auto_now_add = Some False,
      primary_key = False, unique_attr = True, db_index = False, serialize = True,
      others = [(''editable'', PBool False)]\<rparr>"

definition widget_heap :: heap where
  "widget_heap =
     [FieldObj auto_pk,
      FieldObj \<lparr>cls = OtherField ''CharField'', name = ''name'', attname = ''name'', rel = None,
        null = False, blank = False, auto_now = None, auto_now_add = None,
        primary_key = False, unique_attr = False, db_index = False, serialize = True,
        others = [(''max_length'', PInt 100)]\<rparr>,
      FieldObj \<lparr>cls = ForeignKey, name = ''owner'', attname = ''owner_id'', rel = Some 3,
        null = False, blank = False, auto_now = None, auto_now_add = None,
        primary_key = False, unique_attr = False, db_index = True, serialize = True,
        others = [(''max_length'', PNone)]\<rparr>,
      RelObj \<lparr>to = ''Account'', related_name = None\<rparr>]"

definition widget_model :: source_model where
  "widget_model = \<lparr>source_name = ''Widget'',
     source_fields = [(''id'', PNone), (''name'', PStr []), (''owner_id'', PNone)],
     source_pk = ''id''\<rparr>"

definition widget_fields :: "nat pydict" where
  "widget_fields = [(''id'', 4), (''name'', 5), (''owner_id'', 6)]"

text \<open>
  The storage of the widget's history table, and a widget whose \<open>name\<close> has been set to
  \<open>None\<close> in memory.
\<close>

definition widget_storage :: storage where
  "widget_storage = not_null_storage (snd (copy_fields [0, 1, 2] widget_heap)) widget_fields"

definition nameless_widget :: model_instance where
  "nameless_widget = widget\<lparr>cols := [(''id'', PInt 1), (''name'', PNone), (''owner_id'', PInt 7)]\<rparr>"

text \<open>
  A chain of one-to-one primary keys, \<open>Student\<close> to \<open>Person\<close> to \<open>Party\<close>, and two models
  whose primary keys refer to each other; a fresh relational field with the defaults of
  Django's constructor; the downgraded foreign key of an \<open>Enrolment\<close> to its \<open>Student\<close>.
\<close>

definition new_related_field :: "field_class \<Rightarrow> string \<Rightarrow> rel_obj field" where
  "new_related_field c n =
     \<lparr>cls = c, name = [], attname = [],
      rel = Some \<lparr>to = n, related_name = None\<rparr>,
      null = False, blank = False, auto_now = None, auto_now_add = None,
      primary_key = False, unique_attr = False, db_index = True, serialize = True,
      others = [(''max_length'', PNone), (''editable'', PBool True)]\<rparr>"

definition school_models :: registry where
  "school_models = map_of
     [(''Party'', \<lparr>object_name = ''Party'', meta_pk = auto_pk\<rparr>),
      (''Person'', \<lparr>object_name = ''Person'', meta_pk = one_to_one_pk ''party'' ''Party''\<rparr>),
      (''Student'', \<lparr>object_name = ''Student'', meta_pk = one_to_one_pk ''person'' ''Person''\<rparr>)]"

definition cyclic_models :: registry where
  "cyclic_models = map_of
     [(''A'', \<lparr>object_name = ''A'', meta_pk = one_to_one_pk ''b'' ''B''\<rparr>),
      (''B'', \<lparr>object_name = ''B'', meta_pk = one_to_one_pk ''a'' ''A''\<rparr>)]"

definition off_cycle :: "registry \<Rightarrow> rel_obj field \<Rightarrow> bool" where
  "off_cycle models self =
     (models = cyclic_models \<longrightarrow> (\<forall>r. rel self = Some r \<longrightarrow> to r \<noteq> ''A'' \<and> to r \<noteq> ''B''))"

definition enrolment_fk :: "rel_obj field" where
  "enrolment_fk =
     \<lparr>cls = CustomForeignKey ForeignKey, name = ''student_id'', attname = ''student_id'',
      rel = Some \<lparr>to = ''Student'', related_name = Some ''+''\<rparr>,
      null = True, blank = True, auto_now = Some False, auto_now_add = Some False,
      primary_key = False, unique_attr = False, db_index = True, serialize = True,
      others = [(''max_length'', PNone)]\<rparr>"

section \<open>Theorems\<close>

subsection \<open>The audit recorder and the save and delete handlers\<close>

lemma create_historical_record_result:
  "create_historical_record db i t tbl =
     (case db (audit_row_of i t) of
        None \<Rightarrow> (None, tbl @ [audit_row_of i t])
      | Some e \<Rightarrow> (Some e, tbl))"
  by (simp add: create_historical_record_def manager_create_def audit_row_of_def Let_def
      split: option.splits)

lemma audit_row_of_ignores_marker:
  "audit_row_of (i\<lparr>skip_history_when_saving := b\<rparr>) t = audit_row_of i t"
  by (simp add: audit_row_of_def snapshot_def)

lemma handle_event_recorded:
  "snd (handle_event db e tbl)
     = (if recorded e \<and> db (audit_of e) = None then tbl @ [audit_of e] else tbl)"
  by (cases e)
    (auto simp: post_save_def post_delete_def create_historical_record_result audit_of_def
      split: option.splits)

lemma run_events_rows:
  "run_events db evs tbl
     = tbl @ map audit_of (filter (\<lambda>e. recorded e \<and> db (audit_of e) = None) evs)"
  unfolding run_events_def
  by (induction evs arbitrary: tbl) (simp_all add: handle_event_recorded)

lemma recorded_non_suppressed: "\<not> marked_insert e \<Longrightarrow> recorded e = non_suppressed e"
  by (cases e) auto

lemma run_events_non_suppressed:
  assumes "\<forall>e \<in> set evs. \<not> marked_insert e"
  shows "run_events db evs tbl
     = tbl @ map audit_of (filter (\<lambda>e. non_suppressed e \<and> db (audit_of e) = None) evs)"
proof -
  have "filter (\<lambda>e. recorded e \<and> db (audit_of e) = None) evs
      = filter (\<lambda>e. non_suppressed e \<and> db (audit_of e) = None) evs"
    using assms by (intro filter_cong) (auto simp: recorded_non_suppressed)
  then show ?thesis by (simp add: run_events_rows)
qed

lemma history_type_audit_of: "history_type (audit_of e) = change_code e"
  by (simp add: audit_of_def audit_row_of_def)

text \<open>
  C1, as amended. A post-insert event of an instance without the suppression marker
  records a \<open>'+'\<close> (created) row unless the save is raw, and a raw insert records nothing.
  A post-update event records a \<open>'~'\<close> (changed) row unless the instance carries the
  marker or the save is raw. In both cases the row is recorded when the storage accepts
  it; an insert the storage refuses raises the storage's error and records nothing. Hence,
  over any sequence of insert, update and delete events in which no insert carries the
  marker, the table gains exactly the rows of the non-suppressed mutations that the
  storage accepts, in the order of the events and with their change-type codes; a save is
  suppressed by the marker or by the raw flag, a delete never.
\<close>

theorem lifecycle_rows_follow_non_suppressed_events:
  "(\<not> skip_history_when_saving i \<and> \<not> raw \<and> db (audit_row_of i ''+'') = None \<longrightarrow>
      post_save db i True raw tbl = (None, tbl @ [audit_row_of i ''+'']))
   \<and> (raw \<longrightarrow> post_save db i True raw tbl = (None, tbl))
   \<and> (\<not> skip_history_when_saving i \<and> \<not> raw \<and> db (audit_row_of i ''~'') = None \<longrightarrow>
      post_save db i False raw tbl = (None, tbl @ [audit_row_of i ''~'']))
   \<and> (skip_history_when_saving i \<or> raw \<longrightarrow> post_save db i False raw tbl = (None, tbl))
   \<and> (\<not> skip_history_when_saving i \<and> \<not> raw \<and> db (audit_row_of i (if created then ''+'' else ''~'')) = Some e \<longrightarrow>
      post_save db i created raw tbl = (Some e, tbl))
   \<and> ((\<forall>ev \<in> set evs. \<not> marked_insert ev) \<longrightarrow>
      run_events db evs tbl
        = tbl @ map audit_of (filter (\<lambda>ev. non_suppressed ev \<and> db (audit_of ev) = None) evs)
      \<and> length (run_events db evs [])
        = length (filter (\<lambda>ev. non_suppressed ev \<and> db (audit_of ev) = None) evs)
      \<and> map history_type (run_events db evs [])
        = map change_code (filter (\<lambda>ev. non_suppressed ev \<and> db (audit_of ev) = None) evs))"
proof -
  have "run_events db evs tbl
        = tbl @ map audit_of (filter (\<lambda>ev. non_suppressed ev \<and> db (audit_of ev) = None) evs)
      \<and> length (run_events db evs [])
        = length (filter (\<lambda>ev. non_suppressed ev \<and> db (audit_of ev) = None) evs)
      \<and> map history_type (run_events db evs [])
        = map change_code (filter (\<lambda>ev. non_suppressed ev \<and> db (audit_of ev) = None) evs)"
    if "\<forall>ev \<in> set evs. \<not> marked_insert ev"
    using that by (simp add: run_events_non_suppressed history_type_audit_of)
  then show ?thesis
    by (auto simp: post_save_def create_historical_record_result)
qed

text \<open>
  An insert, a suppressed update, a raw update, an update and a delete of a marked
  instance, on a storage that accepts every row: three rows, created, changed, deleted.
  On the widget's own storage the delete of a widget without a name is refused and
  leaves no row.
\<close>

theorem lifecycle_rows_witness:
  "map history_type
     (run_events accept_all
        [PostSave widget True False,
         PostSave (widget\<lparr>skip_history_when_saving := True\<rparr>) False False,
         PostSave widget False True,
         PostSave widget False False,
         PostDelete (widget\<lparr>skip_history_when_saving := True\<rparr>)] [])
   = [''+'', ''~'', ''-'']
   \<and> map history_type
     (run_events widget_storage [PostSave widget True False, PostDelete nameless_widget] [])
   = [''+'']"
proof -
  let ?evs = "[PostSave widget True False,
               PostSave (widget\<lparr>skip_history_when_saving := True\<rparr>) False False,
               PostSave widget False True,
               PostSave widget False False,
               PostDelete (widget\<lparr>skip_history_when_saving := True\<rparr>)]"
  let ?evs2 = "[PostSave widget True False, PostDelete nameless_widget]"
  have m: "\<forall>ev \<in> set ?evs. \<not> marked_insert ev" by (simp add: widget_def)
  have m2: "\<forall>ev \<in> set ?evs2. \<not> marked_insert ev" by (simp add: widget_def)
  have "map history_type (run_events accept_all ?evs [])
      = map change_code (filter (\<lambda>ev. non_suppressed ev \<and> accept_all (audit_of ev) = None) ?evs)"
    using m lifecycle_rows_follow_non_suppressed_events [of widget False accept_all "[]" True DatabaseError ?evs]
    by blast
  moreover have "map history_type (run_events widget_storage ?evs2 [])
      = map change_code
          (filter (\<lambda>ev. non_suppressed ev \<and> widget_storage (audit_of ev) = None) ?evs2)"
    using m2 lifecycle_rows_follow_non_suppressed_events
      [of widget False widget_storage "[]" True DatabaseError ?evs2]
    by blast
  moreover have "widget_storage (audit_of (PostSave widget True False)) = None"
    "widget_storage (audit_of (PostDelete nameless_widget)) = Some IntegrityError"
    by (simp_all add: widget_storage_def not_null_storage_def copy_fields_def copy_field_def
        copy_rel_def copy_copy_def heap_get_def widget_heap_def widget_fields_def auto_pk_def
        Let_def transform_field_def unique_def get_custom_fk_class_def audit_of_def
        audit_row_of_def snapshot_def widget_def nameless_widget_def)
  ultimately show ?thesis by (simp add: widget_def accept_all_def nameless_widget_def)
qed

text \<open>
  C1 as the specification states it fails on a raw insert: the instance carries no
  marker, the storage accepts every row, and yet no row is recorded, so that the number
  of rows differs from the number of mutations the specification counts as
  non-suppressed.
\<close>

theorem post_insert_counterexample:
  "\<not> skip_history_when_saving widget
   \<and> post_save accept_all widget True True [] = (None, [])
   \<and> length (run_events accept_all [PostSave widget True True] [])
       \<noteq> length (filter spec_non_suppressed [PostSave widget True True])"
  by (simp add: widget_def run_events_def post_save_def)

text \<open>
  The insert of an instance that carries the marker is outside the statement above: the
  handler consults the marker only when \<open>created\<close> is false, so that a first save through
  \<open>save_without_historical_record\<close> records a \<open>'+'\<close> row.
\<close>

lemma post_save_marked_insert:
  "post_save accept_all (widget\<lparr>skip_history_when_saving := True\<rparr>) True False []
     = (None, [audit_row_of widget ''+''])
   \<and> save_without_historical_record (model_save accept_all True True) widget []
     = (Inr PNone, widget, [audit_row_of widget ''+''])"
  by (simp add: post_save_def create_historical_record_result accept_all_def
      save_without_historical_record_def model_save_def widget_def audit_row_of_def
      snapshot_def)

text \<open>
  C2, as amended. Every post-delete event asks the storage for exactly one insert, of a
  row with change-type \<open>'-'\<close> (deleted), without consulting the suppression marker or any
  other guard: when the storage accepts the row, the table keeps its rows and gains
  exactly that one; when the storage refuses it, its error is raised and the table is as
  it was. An instance that carries the marker is treated as one that does not.
\<close>

theorem post_delete_records_unless_storage_refuses:
  "(db (audit_row_of i ''-'') = None \<longrightarrow>
      post_delete db i tbl = (None, tbl @ [audit_row_of i ''-''])
      \<and> length (snd (post_delete db i tbl)) = Suc (length tbl)
      \<and> history_type (last (snd (post_delete db i tbl))) = ''-'')
   \<and> (db (audit_row_of i ''-'') = Some e \<longrightarrow> post_delete db i tbl = (Some e, tbl))
   \<and> post_delete db (i\<lparr>skip_history_when_saving := True\<rparr>) tbl = post_delete db i tbl"
proof -
  have m: "post_delete db (i\<lparr>skip_history_when_saving := True\<rparr>) tbl = post_delete db i tbl"
    by (simp only: post_delete_def create_historical_record_result audit_row_of_ignores_marker)
  have t: "history_type (audit_row_of i ''-'') = ''-''"
    by (simp add: audit_row_of_def)
  show ?thesis
    using m t by (simp add: post_delete_def create_historical_record_result)
qed

text \<open>
  The delete of a marked widget is recorded; the delete of the widget without a name is
  refused by the widget's storage.
\<close>

theorem post_delete_witness:
  "accept_all (audit_row_of (widget\<lparr>skip_history_when_saving := True\<rparr>) ''-'') = None
   \<and> post_delete accept_all (widget\<lparr>skip_history_when_saving := True\<rparr>) []
       = (None, [audit_row_of widget ''-''])
   \<and> widget_storage (audit_row_of nameless_widget ''-'') = Some IntegrityError
   \<and> post_delete widget_storage nameless_widget [] = (Some IntegrityError, [])"
proof -
  have a: "accept_all (audit_row_of (widget\<lparr>skip_history_when_saving := True\<rparr>) ''-'') = None"
    by (simp add: accept_all_def)
  have r: "widget_storage (audit_row_of nameless_widget ''-'') = Some IntegrityError"
    by (simp add: widget_storage_def not_null_storage_def copy_fields_def copy_field_def
        copy_rel_def copy_copy_def heap_get_def widget_heap_def widget_fields_def auto_pk_def
        Let_def transform_field_def unique_def get_custom_fk_class_def
        audit_row_of_def snapshot_def widget_def nameless_widget_def)
  from a post_delete_records_unless_storage_refuses
    [of accept_all "widget\<lparr>skip_history_when_saving := True\<rparr>" "[]" IntegrityError]
  have "post_delete accept_all (widget\<lparr>skip_history_when_saving := True\<rparr>) []
       = (None, [audit_row_of widget ''-''])"
    by (simp add: audit_row_of_ignores_marker)
  moreover from r post_delete_records_unless_storage_refuses [of widget_storage nameless_widget "[]" IntegrityError]
  have "post_delete widget_storage nameless_widget [] = (Some IntegrityError, [])"
    by simp
  ultimately show ?thesis using a r by simp
qed

text \<open>
  C2 as the specification states it fails: the state of the instance can prevent the row.
  The history table keeps the \<open>NOT NULL\<close> constraint of the copied \<open>name\<close> column, so
  the delete of a widget whose \<open>name\<close> is \<open>None\<close> raises \<open>IntegrityError\<close> and records
  no row.
\<close>

theorem post_delete_counterexample:
  "post_delete widget_storage nameless_widget [] = (Some IntegrityError, [])
   \<and> length (snd (post_delete widget_storage nameless_widget [])) = 0"
  by (simp add: post_delete_def create_historical_record_result
      widget_storage_def not_null_storage_def copy_fields_def copy_field_def
      copy_rel_def copy_copy_def heap_get_def widget_heap_def widget_fields_def auto_pk_def
      Let_def transform_field_def unique_def get_custom_fk_class_def
      audit_row_of_def snapshot_def widget_def nameless_widget_def)

text \<open>
  C3. After \<open>save_without_historical_record\<close>, whatever the enclosed save did (returned,
  raised, changed the instance), the instance does not carry the suppression marker, so
  the next update of that instance is not suppressed: the recorder is called for it, and
  the \<open>'~'\<close> row is recorded when the storage accepts it.
\<close>

theorem marker_cleared_after_save_without_historical_record:
  "save_without_historical_record save self w = (ret, self', w') \<Longrightarrow>
     \<not> skip_history_when_saving self'
     \<and> post_save db self' False False tbl = create_historical_record db self' ''~'' tbl
     \<and> (db (audit_row_of self' ''~'') = None \<longrightarrow>
          post_save db self' False False tbl = (None, tbl @ [audit_row_of self' ''~'']))"
  by (auto simp: save_without_historical_record_def Let_def post_save_def
      create_historical_record_result split: prod.splits if_splits)

text \<open>
  A save that raises and a save that succeeds: in both cases the marker is gone, the
  suppressed update has written no row, and the following update writes one.
\<close>

theorem marker_cleared_witness:
  "save_without_historical_record (model_save accept_all False False) widget []
     = (Inl DatabaseError, widget, [])
   \<and> save_without_historical_record (model_save accept_all True False) widget []
     = (Inr PNone, widget, [])
   \<and> \<not> skip_history_when_saving widget
   \<and> post_save accept_all widget False False [] = (None, [audit_row_of widget ''~''])"
proof -
  have run: "save_without_historical_record (model_save accept_all False False) widget []
     = (Inl DatabaseError, widget, [])"
    by (simp add: save_without_historical_record_def model_save_def widget_def)
  have run2: "save_without_historical_record (model_save accept_all True False) widget []
     = (Inr PNone, widget, [])"
    by (simp add: save_without_historical_record_def model_save_def post_save_def widget_def)
  have acc: "accept_all (audit_row_of widget ''~'') = None" by (simp add: accept_all_def)
  note th = marker_cleared_after_save_without_historical_record [OF run, of accept_all "[]"]
  have m: "\<not> skip_history_when_saving widget" using th by blast
  have "post_save accept_all widget False False [] = (None, [] @ [audit_row_of widget ''~''])"
    using th acc by blast
  then have "post_save accept_all widget False False [] = (None, [audit_row_of widget ''~''])"
    by simp
  with run run2 m show ?thesis by blast
qed

subsection \<open>The membership-change handler\<close>

text \<open>
  C4, as the code has it. When the owner side of the join schema cannot be determined
  (\<open>source_field_name\<close> is still \<open>None\<close>), or the target side cannot and the set of
  changed ids is not empty, the handler raises \<open>TypeError\<close> before it writes any audit
  row: the table is as it was and the error reaches the caller. When only the target side
  is undetermined and the set is empty or \<open>None\<close>, the rows of the owner are processed as
  in any other event.
\<close>

theorem m2m_changed_undetermined_sides:
  assumes "m2m_field_names (class_dict sender) model (model_name inst) (None, None) = (s, t)"
  shows "(s = None \<longrightarrow> m2m_changed db action inst sender model pk_set tbl = (Some TypeError, tbl))
    \<and> (s \<noteq> None \<and> t = None \<and> truthy_set pk_set \<longrightarrow>
         m2m_changed db action inst sender model pk_set tbl = (Some TypeError, tbl))
    \<and> (s = Some f \<and> t = None \<and> \<not> truthy_set pk_set \<longrightarrow>
         m2m_changed db action inst sender model pk_set tbl
           = m2m_record_items db action (filter_related f inst (objects sender)) tbl)"
  using assms by (auto simp: m2m_changed_def m2m_items_def Let_def)

theorem m2m_changed_undetermined_witness:
  "m2m_field_names (class_dict friendship) ''Person'' (model_name alice) (None, None)
     = (None, Some ''to_person'')
   \<and> m2m_changed accept_all ''post_add'' alice friendship ''Person'' (Some [PInt 2]) []
     = (Some TypeError, [])"
proof -
  have h: "m2m_field_names (class_dict friendship) ''Person'' (model_name alice) (None, None)
     = (None, Some ''to_person'')"
    by (simp add: friendship_def alice_def)
  show ?thesis
    using h m2m_changed_undetermined_sides
      [OF h, of accept_all "''post_add''" "Some [PInt 2]" "[]"]
    by simp
qed

text \<open>
  C4 as the specification states it fails. On a join of \<open>Person\<close> with itself both
  descriptors match the target test, the owner side stays undetermined, and adding a
  member raises \<open>TypeError\<close>: the event is not dropped silently. On a join schema without
  a descriptor for the target model, clearing the relation records a \<open>'-'\<close> row although
  the target side is undetermined.
\<close>

theorem m2m_changed_not_silent_counterexample:
  "m2m_field_names (class_dict friendship) ''Person'' (model_name alice) (None, None)
     = (None, Some ''to_person'')
   \<and> m2m_changed accept_all ''post_add'' alice friendship ''Person'' (Some [PInt 2]) []
     = (Some TypeError, [])
   \<and> m2m_field_names (class_dict membership_one_sided) ''Account'' (model_name team) (None, None)
     = (Some ''team'', None)
   \<and> m2m_changed accept_all ''pre_clear'' team membership_one_sided ''Account'' None []
     = (None, [audit_row_of (member_row 1 10 False) ''-''])"
  by (simp add: friendship_def alice_def membership_one_sided_def team_def m2m_changed_def
      m2m_items_def truthy_set_def filter_related_def member_row_def
      create_historical_record_result accept_all_def)

lemma m2m_record_items_stops:
  "\<forall>i\<in>set pre. \<not> skip_history_when_saving i \<Longrightarrow> skip_history_when_saving x \<Longrightarrow>
     m2m_record_items db ''post_add'' (pre @ x # post) tbl
       = m2m_record_items db ''post_add'' pre tbl"
  by (induction pre arbitrary: tbl) (auto split: prod.splits option.splits)

lemma m2m_record_items_post_add_accepted:
  "\<forall>i\<in>set pre. \<not> skip_history_when_saving i \<and> db (audit_row_of i ''+'') = None \<Longrightarrow>
     m2m_record_items db ''post_add'' pre tbl
       = (None, tbl @ map (\<lambda>i. audit_row_of i ''+'') pre)"
  by (induction pre arbitrary: tbl) (simp_all add: create_historical_record_result)

lemma m2m_record_items_post_add_rows:
  "\<forall>i\<in>set pre. \<not> skip_history_when_saving i \<Longrightarrow>
     \<exists>k\<le>length pre. snd (m2m_record_items db ''post_add'' pre tbl)
       = tbl @ map (\<lambda>i. audit_row_of i ''+'') (take k pre)"
proof (induction pre arbitrary: tbl)
  case Nil
  then show ?case by simp
next
  case (Cons p pre)
  show ?case
  proof (cases "db (audit_row_of p ''+'')")
    case (Some e)
    then have "snd (m2m_record_items db ''post_add'' (p # pre) tbl)
        = tbl @ map (\<lambda>i. audit_row_of i ''+'') (take 0 (p # pre))"
      using Cons.prems by (simp add: create_historical_record_result)
    then show ?thesis by blast
  next
    case None
    from Cons.prems have "\<forall>i\<in>set pre. \<not> skip_history_when_saving i" by simp
    from Cons.IH [OF this, of "tbl @ [audit_row_of p ''+'']"]
    obtain k where k: "k \<le> length pre"
      "snd (m2m_record_items db ''post_add'' pre (tbl @ [audit_row_of p ''+'']))
         = (tbl @ [audit_row_of p ''+'']) @ map (\<lambda>i. audit_row_of i ''+'') (take k pre)"
      by blast
    have "snd (m2m_record_items db ''post_add'' (p # pre) tbl)
        = tbl @ map (\<lambda>i. audit_row_of i ''+'') (take (Suc k) (p # pre))"
      using Cons.prems None k(2) by (simp add: create_historical_record_result)
    moreover have "Suc k \<le> length (p # pre)" using k(1) by simp
    ultimately show ?thesis by blast
  qed
qed

text \<open>
  C10. When the action is \<open>post_add\<close> and \<open>x\<close> is the first matched through-relation row
  that carries the suppression marker, the handler returns at \<open>x\<close>: it does what it does
  on the rows before \<open>x\<close> alone, so that the table gains \<open>'+'\<close> rows of rows before \<open>x\<close>
  only and nothing for \<open>x\<close> or for any row after it. When the storage accepts the rows
  of all the rows before \<open>x\<close>, the table gains exactly those.
\<close>

theorem m2m_post_add_stops_at_marked_row:
  assumes "m2m_items inst sender model pk_set = Inr (pre @ x # post)"
    and "\<forall>i\<in>set pre. \<not> skip_history_when_saving i"
    and "skip_history_when_saving x"
  shows "m2m_changed db ''post_add'' inst sender model pk_set tbl
           = m2m_record_items db ''post_add'' pre tbl
    \<and> (\<exists>k\<le>length pre. snd (m2m_changed db ''post_add'' inst sender model pk_set tbl)
           = tbl @ map (\<lambda>i. audit_row_of i ''+'') (take k pre))
    \<and> ((\<forall>i\<in>set pre. db (audit_row_of i ''+'') = None) \<longrightarrow>
         m2m_changed db ''post_add'' inst sender model pk_set tbl
           = (None, tbl @ map (\<lambda>i. audit_row_of i ''+'') pre))"
proof -
  have run: "m2m_changed db ''post_add'' inst sender model pk_set tbl
           = m2m_record_items db ''post_add'' pre tbl"
    using assms by (simp add: m2m_changed_def m2m_record_items_stops)
  moreover have "\<exists>k\<le>length pre. snd (m2m_record_items db ''post_add'' pre tbl)
           = tbl @ map (\<lambda>i. audit_row_of i ''+'') (take k pre)"
    using assms(2) by (rule m2m_record_items_post_add_rows)
  moreover have "m2m_record_items db ''post_add'' pre tbl
           = (None, tbl @ map (\<lambda>i. audit_row_of i ''+'') pre)"
    if "\<forall>i\<in>set pre. db (audit_row_of i ''+'') = None"
    using that assms(2) by (intro m2m_record_items_post_add_accepted) blast
  ultimately show ?thesis by simp
qed

text \<open>
  Three members are added and the second row carries the marker: one row is recorded, for
  the first member; the third, unmarked, gets none.
\<close>

theorem m2m_post_add_stops_witness:
  "m2m_items team membership ''Account'' (Some [PInt 10, PInt 11, PInt 12])
     = Inr ([member_row 1 10 False] @ member_row 2 11 True # [member_row 3 12 False])
   \<and> m2m_changed accept_all ''post_add'' team membership ''Account''
       (Some [PInt 10, PInt 11, PInt 12]) []
     = (None, [audit_row_of (member_row 1 10 False) ''+''])"
proof -
  have h: "m2m_items team membership ''Account'' (Some [PInt 10, PInt 11, PInt 12])
     = Inr ([member_row 1 10 False] @ member_row 2 11 True # [member_row 3 12 False])"
    by (simp add: m2m_items_def membership_def team_def truthy_set_def filter_related_def
        filter_id_in_def member_row_def)
  have u: "\<forall>i\<in>set [member_row 1 10 False]. \<not> skip_history_when_saving i"
    by (simp add: member_row_def)
  have m: "skip_history_when_saving (member_row 2 11 True)"
    by (simp add: member_row_def)
  have a: "\<forall>i\<in>set [member_row 1 10 False]. accept_all (audit_row_of i ''+'') = None"
    by (simp add: accept_all_def)
  from m2m_post_add_stops_at_marked_row [OF h u m, of accept_all "[]"] a
  have "m2m_changed accept_all ''post_add'' team membership ''Account''
       (Some [PInt 10, PInt 11, PInt 12]) []
     = (None, [] @ map (\<lambda>i. audit_row_of i ''+'') [member_row 1 10 False])"
    by blast
  with h show ?thesis by simp
qed

subsection \<open>The field transformer\<close>

lemma issubclass_Auto_File: "issubclass c AutoField \<Longrightarrow> issubclass c FileField \<Longrightarrow> False"
  by (induction c) auto

text \<open>
  C6. For every column descriptor, after \<open>transform_field\<close>: a column of an
  auto-incrementing class is of class \<open>IntegerField\<close>; a column of a file class is of class
  \<open>TextField\<close>; \<open>auto_now\<close> and \<open>auto_now_add\<close> are \<open>False\<close>; and a column that was a
  primary key or unique is neither any more and is indexed.
\<close>

theorem transform_field_rules:
  "(issubclass (cls f) AutoField \<longrightarrow> cls (transform_field f) = IntegerField)
   \<and> (issubclass (cls f) FileField \<longrightarrow> cls (transform_field f) = TextField)
   \<and> auto_now (transform_field f) = Some False
   \<and> auto_now_add (transform_field f) = Some False
   \<and> (primary_key f \<or> unique f \<longrightarrow>
        \<not> primary_key (transform_field f) \<and> \<not> unique (transform_field f)
        \<and> db_index (transform_field f))"
  using issubclass_Auto_File [of "cls f"]
  by (auto simp: transform_field_def Let_def unique_def)

text \<open>
  An auto-incrementing primary key, an image column and a unique timestamp with
  \<open>auto_now\<close> set.
\<close>

theorem transform_field_witness:
  "issubclass (cls (auto_pk :: nat field)) AutoField
   \<and> primary_key (auto_pk :: nat field)
   \<and> cls (transform_field (auto_pk :: nat field)) = IntegerField
   \<and> \<not> primary_key (transform_field (auto_pk :: nat field))
   \<and> db_index (transform_field (auto_pk :: nat field))
   \<and> issubclass (cls (attachment_field :: nat field)) FileField
   \<and> cls (transform_field (attachment_field :: nat field)) = TextField
   \<and> unique (stamp_field :: nat field)
   \<and> \<not> unique (transform_field (stamp_field :: nat field))
   \<and> auto_now (transform_field (stamp_field :: nat field)) = Some False"
  using transform_field_rules [of "auto_pk :: nat field"]
    transform_field_rules [of "attachment_field :: nat field"]
    transform_field_rules [of "stamp_field :: nat field"]
  by (simp add: auto_pk_def attachment_field_def stamp_field_def unique_def)

subsection \<open>Copying the fields of a model\<close>

lemma copy_field_frame:
  "copy_field a h = (res, h') \<Longrightarrow> take (length h) h' = h"
  by (auto simp: copy_field_def copy_rel_def copy_copy_def heap_get_def Let_def
      split: option.splits obj.splits if_splits prod.splits)

lemma copy_field_fresh:
  "copy_field a h = (Inr (k, a'), h') \<Longrightarrow> a' = length h \<and> a' < length h'"
  by (auto simp: copy_field_def copy_rel_def copy_copy_def heap_get_def Let_def
      split: option.splits obj.splits if_splits prod.splits)

lemma frame_length:
  assumes "take (length h) h' = h"
  shows "length h \<le> length h'"
proof -
  have "length (take (length h) h') = length h" using assms by simp
  then show ?thesis by simp
qed

lemma frame_trans:
  assumes "take (length h) h' = h" and "take (length h') h'' = h'"
  shows "take (length h) h'' = h"
proof -
  have "length h \<le> length h'" using assms(1) by (rule frame_length)
  then have "take (length h) h'' = take (length h) (take (length h') h'')"
    by (simp add: min_def)
  then show ?thesis using assms by simp
qed

lemma copy_fields_loop_frame:
  "copy_fields_loop fs d h = (res, h') \<Longrightarrow> take (length h) h' = h"
proof (induction fs arbitrary: d h)
  case Nil
  then show ?case by simp
next
  case (Cons a fs)
  obtain r h1 where step: "copy_field a h = (r, h1)" by (cases "copy_field a h")
  have f1: "take (length h) h1 = h" using step by (rule copy_field_frame)
  show ?case
  proof (cases r)
    case (Inl e)
    with Cons.prems step f1 show ?thesis by simp
  next
    case (Inr p)
    obtain k a' where p: "p = (k, a')" by (cases p)
    from Cons.prems step Inr p
    have "copy_fields_loop fs (AList.update k a' d) h1 = (res, h')" by simp
    then have "take (length h1) h' = h1" by (rule Cons.IH)
    with f1 show ?thesis by (rule frame_trans)
  qed
qed

lemma update_values: "(k', v') \<in> set (AList.update k v d) \<Longrightarrow> v' = v \<or> (k', v') \<in> set d"
  by (induction d) (auto split: if_splits)

lemma copy_fields_loop_fresh:
  "copy_fields_loop fs d h = (Inr d', h') \<Longrightarrow> n \<le> length h \<Longrightarrow>
     \<forall>(k, a) \<in> set d. n \<le> a \<and> a < length h \<Longrightarrow>
     \<forall>(k, a) \<in> set d'. n \<le> a \<and> a < length h'"
proof (induction fs arbitrary: d h)
  case Nil
  then show ?case by simp
next
  case (Cons a fs)
  obtain r h1 where step: "copy_field a h = (r, h1)" by (cases "copy_field a h")
  show ?case
  proof (cases r)
    case (Inl e)
    with Cons.prems step show ?thesis by simp
  next
    case (Inr p)
    obtain k a' where p: "p = (k, a')" by (cases p)
    from step Inr p have fr: "a' = length h \<and> a' < length h1"
      by (simp add: copy_field_fresh)
    from Cons.prems step Inr p
    have run: "copy_fields_loop fs (AList.update k a' d) h1 = (Inr d', h')" by simp
    have "\<forall>(k, a) \<in> set (AList.update k a' d). n \<le> a \<and> a < length h1"
      using Cons.prems(2,3) fr by (auto dest!: update_values)
    moreover have "n \<le> length h1" using Cons.prems(2) fr by simp
    ultimately show ?thesis using Cons.IH [OF run] by blast
  qed
qed

lemma copy_field_key:
  "copy_field a h = (Inr (k, a'), h') \<Longrightarrow> \<exists>f. heap_get h a = Some (FieldObj f) \<and> k = attname f"
  by (auto simp: copy_field_def copy_rel_def copy_copy_def Let_def transform_field_def
      split: option.splits obj.splits if_splits prod.splits)

lemma heap_get_frame:
  assumes "take (length h) h' = h" and "a < length h"
  shows "heap_get h' a = heap_get h a"
proof -
  have "length h \<le> length h'" using assms(1) by (rule frame_length)
  moreover have "h' ! a = h ! a" using assms by (metis nth_take)
  ultimately show ?thesis using assms(2) by (simp add: heap_get_def)
qed

lemma copy_fields_loop_keys:
  "copy_fields_loop fs d h = (Inr d', h') \<Longrightarrow> \<forall>a \<in> set fs. a < length h \<Longrightarrow>
     fst ` set d' = fst ` set d \<union> column_attnames h fs"
proof (induction fs arbitrary: d h)
  case Nil
  then show ?case by (simp add: column_attnames_def)
next
  case (Cons a fs)
  obtain r h1 where step: "copy_field a h = (r, h1)" by (cases "copy_field a h")
  show ?case
  proof (cases r)
    case (Inl e)
    with Cons.prems step show ?thesis by simp
  next
    case (Inr p)
    obtain k a' where p: "p = (k, a')" by (cases p)
    from step Inr p obtain f where f: "heap_get h a = Some (FieldObj f)" "k = attname f"
      using copy_field_key by blast
    have fr: "take (length h) h1 = h" using step by (rule copy_field_frame)
    then have len: "length h \<le> length h1" by (rule frame_length)
    from Cons.prems step Inr p
    have run: "copy_fields_loop fs (AList.update k a' d) h1 = (Inr d', h')" by simp
    have "\<forall>a \<in> set fs. a < length h1" using Cons.prems(2) len by auto
    from Cons.IH [OF run this]
    have "fst ` set d' = insert k (fst ` set d) \<union> column_attnames h1 fs"
      by (simp add: dom_update)
    moreover have "column_attnames h1 fs = column_attnames h fs"
    proof -
      have eq: "heap_get h1 x = heap_get h x" if "x \<in> set fs" for x
        using that Cons.prems(2) heap_get_frame [OF fr] by simp
      show ?thesis unfolding column_attnames_def
        by (rule Collect_cong) (metis eq)
    qed
    moreover have "column_attnames h (a # fs) = insert k (column_attnames h fs)"
      using f by (auto simp: column_attnames_def)
    ultimately show ?thesis by auto
  qed
qed

text \<open>
  The keys of the dictionary \<open>copy_fields\<close> returns are the attribute names of the
  model's columns: \<open>transform_field\<close> has renamed every copy to its \<open>attname\<close>.
\<close>

lemma copy_fields_keys:
  "copy_fields fs h = (Inr d, h') \<Longrightarrow> \<forall>a \<in> set fs. a < length h \<Longrightarrow>
     set (map fst d) = column_attnames h fs"
  using copy_fields_loop_keys [of fs "[]" h d h'] by (simp add: copy_fields_def)

text \<open>
  C8. \<open>copy_fields\<close> leaves every object that existed before the call as it was, the
  model's column objects and their relation objects included, whether it returns or
  raises: the store after the call begins with the store before it. Every column object
  of the returned dictionary is a new object, allocated by the call.
\<close>

theorem copy_fields_leaves_originals:
  assumes "copy_fields model_fields h = (res, h')"
  shows "take (length h) h' = h
    \<and> (\<forall>a. a < length h \<longrightarrow> heap_get h' a = heap_get h a)
    \<and> (\<forall>d. res = Inr d \<longrightarrow> (\<forall>(k, a) \<in> set d. length h \<le> a \<and> a < length h'))"
proof -
  have fr: "take (length h) h' = h"
    using assms unfolding copy_fields_def by (rule copy_fields_loop_frame)
  have "heap_get h' a = heap_get h a" if "a < length h" for a
  proof -
    have "length h \<le> length h'" using fr by (rule frame_length)
    moreover have "h' ! a = h ! a" using fr that by (metis nth_take)
    ultimately show ?thesis using that by (simp add: heap_get_def)
  qed
  moreover have "\<forall>(k, a) \<in> set d. length h \<le> a \<and> a < length h'" if "res = Inr d" for d
    using assms that copy_fields_loop_fresh [of model_fields "[]" h d h' "length h"]
    unfolding copy_fields_def by simp
  ultimately show ?thesis using fr by blast
qed

text \<open>
  The three columns of \<open>Widget\<close>: the copies are the objects 4, 5 and 6, the copy of the
  relation object is renamed to \<open>'+'\<close>, and the four original objects are unchanged.
\<close>

theorem copy_fields_witness:
  "fst (copy_fields [0, 1, 2] widget_heap) = Inr widget_fields
   \<and> length widget_heap = 4
   \<and> take (length widget_heap) (snd (copy_fields [0, 1, 2] widget_heap)) = widget_heap
   \<and> heap_get (snd (copy_fields [0, 1, 2] widget_heap)) 7
       = Some (RelObj \<lparr>to = ''Account'', related_name = Some ''+''\<rparr>)
   \<and> heap_get (snd (copy_fields [0, 1, 2] widget_heap)) 3 = heap_get widget_heap 3"
proof -
  have run: "copy_fields [0, 1, 2] widget_heap
      = (fst (copy_fields [0, 1, 2] widget_heap), snd (copy_fields [0, 1, 2] widget_heap))"
    by simp
  have ev: "fst (copy_fields [0, 1, 2] widget_heap) = Inr widget_fields
     \<and> heap_get (snd (copy_fields [0, 1, 2] widget_heap)) 7
       = Some (RelObj \<lparr>to = ''Account'', related_name = Some ''+''\<rparr>)"
    by (simp add: copy_fields_def copy_field_def copy_rel_def copy_copy_def heap_get_def
        widget_heap_def widget_fields_def auto_pk_def Let_def transform_field_def unique_def
        get_custom_fk_class_def)
  have len: "length widget_heap = 4" by (simp add: widget_heap_def)
  from copy_fields_leaves_originals [OF run]
  have "take (length widget_heap) (snd (copy_fields [0, 1, 2] widget_heap)) = widget_heap"
    and "heap_get (snd (copy_fields [0, 1, 2] widget_heap)) 3 = heap_get widget_heap 3"
    using len by simp_all
  with ev len show ?thesis by simp
qed

subsection \<open>The foreign key downgrader\<close>

lemma get_field_one_to_one:
  "rel self = Some r \<Longrightarrow> models (to r) = Some m \<Longrightarrow>
   issubclass (cls (meta_pk m)) OneToOneField \<Longrightarrow>
     get_field new_field models self = get_one_to_one_field new_field models self (meta_pk m)"
  by (subst get_field.simps) (simp add: get_one_to_one_field_def Let_def split: option.splits)

lemma resolves_within_known: "resolves_within models n m \<Longrightarrow> \<exists>meta. models m = Some meta"
  by (cases n) (auto split: option.splits)

lemma rel_set_public_attrs: "rel (set_public_attrs to_field temp_field) = rel to_field"
  by (simp add: set_public_attrs_def)

lemma cls_set_scalar_attrs: "cls (set_scalar_attrs to_field field) = cls field"
  by (simp add: set_scalar_attrs_def)

text \<open>
  C5. When the chain of one-to-one primary keys that starts at the referenced model has
  finite depth (at most \<open>n\<close> links, for any \<open>n\<close>, lead to a primary key that is not a
  one-to-one relation), \<open>get_field\<close> returns, and it returns a column: the recursion stops
  at that primary key, and the column it returns is not of a one-to-one class.
\<close>

theorem get_field_terminates:
  assumes "rel self = Some r" and "resolves_within models n (to r)"
  shows "\<exists>f. get_field new_field models self = Some (Inr f)
           \<and> \<not> issubclass (cls f) OneToOneField"
  using assms
proof (induction n arbitrary: self r)
  case 0
  then obtain m where m: "models (to r) = Some m" "\<not> issubclass (cls (meta_pk m)) OneToOneField"
    by (auto split: option.splits)
  then show ?case using "0.prems"(1)
    by (subst get_field.simps) (simp add: Let_def cls_set_scalar_attrs)
next
  case (Suc n)
  from Suc.prems(2) obtain m where m: "models (to r) = Some m"
    by (auto split: option.splits)
  show ?case
  proof (cases "issubclass (cls (meta_pk m)) OneToOneField")
    case False
    then show ?thesis using Suc.prems(1) m
      by (subst get_field.simps) (simp add: Let_def cls_set_scalar_attrs)
  next
    case True
    with Suc.prems(2) m obtain r' where r': "rel (meta_pk m) = Some r'"
      and deeper: "resolves_within models n (to r')"
      by (auto split: option.splits)
    from deeper obtain m' where m': "models (to r') = Some m'"
      using resolves_within_known by blast
    let ?temp = "set_public_attrs (meta_pk m) (new_field (cls self) (object_name m'))"
    have "rel ?temp = Some r'" using r' by (simp add: rel_set_public_attrs)
    from Suc.IH [OF this deeper]
    obtain f where "get_field new_field models ?temp = Some (Inr f)"
      and "\<not> issubclass (cls f) OneToOneField" by blast
    then show ?thesis using Suc.prems(1) m True r' m'
      by (subst get_field.simps) (simp add: Let_def)
  qed
qed

text \<open>
  A chain of depth two: the foreign key to \<open>Student\<close> resolves through \<open>Person\<close> to the
  auto-incrementing key of \<open>Party\<close> and comes back as an integer column.
\<close>

theorem get_field_terminates_witness:
  "rel enrolment_fk = Some \<lparr>to = ''Student'', related_name = Some ''+''\<rparr>
   \<and> resolves_within school_models 2 ''Student''
   \<and> (\<exists>f. get_field new_related_field school_models enrolment_fk = Some (Inr f)
          \<and> cls f = IntegerField)"
proof -
  have r: "rel enrolment_fk = Some \<lparr>to = ''Student'', related_name = Some ''+''\<rparr>"
    by (simp add: enrolment_fk_def)
  have d: "resolves_within school_models 2 (to \<lparr>to = ''Student'', related_name = Some ''+''\<rparr>)"
    by (simp add: numeral_2_eq_2 school_models_def one_to_one_pk_def auto_pk_def)
  from get_field_terminates [OF r d, of new_related_field]
  obtain f where f: "get_field new_related_field school_models enrolment_fk = Some (Inr f)"
    by blast
  have "cls (projr (the (get_field new_related_field school_models enrolment_fk))) = IntegerField"
    by (simp add: get_field.simps school_models_def enrolment_fk_def one_to_one_pk_def
        auto_pk_def new_related_field_def set_public_attrs_def public_key_def Let_def)
  with f have "cls f = IntegerField" by simp
  with r d f show ?thesis by auto
qed

text \<open>
  The finite depth is needed: on two models whose primary keys are one-to-one relations
  to each other the recursion never reaches a result.
\<close>

lemma get_field_stays_off_cycle:
  assumes "get_field nf models self = Some y"
  shows "off_cycle models self"
proof (rule get_field.raw_induct [where P = "\<lambda>nf models self y. off_cycle models self", OF _ assms])
  fix g :: "(field_class \<Rightarrow> string \<Rightarrow> rel_obj field) \<Rightarrow> registry \<Rightarrow> rel_obj field \<Rightarrow>
      (error + rel_obj field) option"
    and new_field :: "field_class \<Rightarrow> string \<Rightarrow> rel_obj field"
    and models :: registry and self :: "rel_obj field" and y :: "error + rel_obj field"
  assume IH: "\<And>nf' models' self' y'. g nf' models' self' = Some y' \<Longrightarrow> off_cycle models' self'"
  assume body: "(case rel self of
        None \<Rightarrow> Some (Inl AttributeError)
      | Some r \<Rightarrow>
          (case models (to r) of
             None \<Rightarrow> Some (Inl AttributeError)
           | Some m \<Rightarrow>
               (let to_field = meta_pk m in
                if issubclass (cls to_field) OneToOneField then
                  (case rel to_field of
                     None \<Rightarrow> Some (Inl AttributeError)
                   | Some r' \<Rightarrow>
                       (case models (to r') of
                          None \<Rightarrow> Some (Inl AttributeError)
                        | Some m' \<Rightarrow>
                            g new_field models
                              (set_public_attrs to_field (new_field (cls self) (object_name m')))))
                else if issubclass (cls to_field) AutoField then
                  Some (Inr (self\<lparr>cls := IntegerField\<rparr>))
                else
                  Some (Inr (set_scalar_attrs to_field (self\<lparr>cls := cls to_field\<rparr>)))))) = Some y"
  show "off_cycle models self"
    unfolding off_cycle_def
  proof (intro impI allI)
    fix r assume c: "models = cyclic_models" and r: "rel self = Some r"
    show "to r \<noteq> ''A'' \<and> to r \<noteq> ''B''"
    proof (rule ccontr)
      assume "\<not> (to r \<noteq> ''A'' \<and> to r \<noteq> ''B'')"
      then consider "to r = ''A''" | "to r = ''B''" by blast
      then show False
      proof cases
        case 1
        let ?t = "set_public_attrs (one_to_one_pk ''b'' ''B'') (new_field (cls self) ''B'')"
        have "g new_field models ?t = Some y"
          using body c r 1
          by (simp add: cyclic_models_def Let_def one_to_one_pk_def)
        from IH [OF this] c show False
          by (simp add: off_cycle_def rel_set_public_attrs one_to_one_pk_def)
      next
        case 2
        let ?t = "set_public_attrs (one_to_one_pk ''a'' ''A'') (new_field (cls self) ''A'')"
        have "g new_field models ?t = Some y"
          using body c r 2
          by (simp add: cyclic_models_def Let_def one_to_one_pk_def)
        from IH [OF this] c show False
          by (simp add: off_cycle_def rel_set_public_attrs one_to_one_pk_def)
      qed
    qed
  qed
qed

lemma get_field_cycle_never_returns:
  "get_field new_field cyclic_models (new_related_field ForeignKey ''A'') = None"
proof (cases "get_field new_field cyclic_models (new_related_field ForeignKey ''A'')")
  case None
  then show ?thesis .
next
  case (Some y)
  from get_field_stays_off_cycle [OF this] show ?thesis
    by (simp add: off_cycle_def new_related_field_def)
qed

subsection \<open>Meta options\<close>

text \<open>
  C9. For every binder and every source model the synthesized schema's default ordering
  is \<open>('-history_date', '-history_id')\<close>: a row sorts before another exactly when its
  timestamp is later, or the timestamps are equal and its sequence id is larger; two rows
  with different sequence ids are never left unordered.
\<close>

theorem history_ordering_reverse_chronological:
  "meta_ordering (get_meta_options self model_verbose_name) = [''-history_date'', ''-history_id'']
   \<and> (sorts_before (meta_ordering (get_meta_options self model_verbose_name)) a b
        = (history_date b < history_date a
           \<or> history_date a = history_date b \<and> history_id b < history_id a))
   \<and> (history_id a \<noteq> history_id b \<longrightarrow>
        sorts_before (meta_ordering (get_meta_options self model_verbose_name)) a b
        \<or> sorts_before (meta_ordering (get_meta_options self model_verbose_name)) b a)"
  by (auto simp: get_meta_options_def order_column_def)

text \<open>Two rows written at the same time: the later one, with the larger id, comes first.\<close>

theorem history_ordering_witness:
  "sorts_before
     (meta_ordering (get_meta_options \<lparr>user_set_verbose_name = None, m2m_fields = None\<rparr> ''widget''))
     \<lparr>history_id = 2, history_date = 100, stored = audit_row_of widget ''~''\<rparr>
     \<lparr>history_id = 1, history_date = 100, stored = audit_row_of widget ''+''\<rparr>"
proof -
  let ?a = "\<lparr>history_id = 2, history_date = 100, stored = audit_row_of widget ''~''\<rparr>"
  let ?b = "\<lparr>history_id = 1, history_date = 100, stored = audit_row_of widget ''+''\<rparr>"
  let ?self = "\<lparr>user_set_verbose_name = None, m2m_fields = None\<rparr>"
  have "sorts_before (meta_ordering (get_meta_options ?self ''widget'')) ?a ?b
      = (history_date ?b < history_date ?a
         \<or> history_date ?a = history_date ?b \<and> history_id ?b < history_id ?a)"
    using history_ordering_reverse_chronological [of ?self "''widget''" ?a ?b] by blast
  then show ?thesis by simp
qed

subsection \<open>Materializing an instance from an audit row\<close>

lemma map_of_foldl_update:
  "map_of (foldl (\<lambda>d (a, v). AList.update a v d) d0 xs) = map_of d0 ++ map_of (rev xs)"
proof (induction xs arbitrary: d0)
  case Nil
  then show ?case by simp
next
  case (Cons x xs)
  obtain a v where x: "x = (a, v)" by (cases x)
  have "map_of (AList.update a v d0) ++ map_of (rev xs)
      = map_of d0 ++ map_of (rev xs @ [(a, v)])"
    by (rule ext) (simp add: update_conv' map_add_def split: option.splits)
  then show ?case by (simp add: x Cons.IH)
qed

lemma keys_foldl_update:
  "fst ` set (foldl (\<lambda>d (a, v). AList.update a v d) d0 xs) = fst ` set d0 \<union> fst ` set xs"
proof (induction xs arbitrary: d0)
  case Nil
  then show ?case by simp
next
  case (Cons x xs)
  obtain a v where x: "x = (a, v)" by (cases x)
  show ?case by (simp add: x Cons.IH dom_update)
qed

lemma getattrs_all:
  "set ks \<subseteq> fst ` set (attrs row) \<Longrightarrow>
     getattrs row ks = Inr (map (\<lambda>k. (k, the (map_of (attrs row) k))) ks)"
proof (induction ks)
  case Nil
  then show ?case by simp
next
  case (Cons k ks)
  then have "k \<in> fst ` set (attrs row)" by simp
  then obtain v where "map_of (attrs row) k = Some v"
    by (metis domD dom_map_of_conv_image_fst)
  with Cons show ?case by (simp add: getattr_row_def)
qed

lemma assign_args_same_keys:
  "assign_args fs (map (\<lambda>(a, d). g a) fs) = map (\<lambda>(a, d). (a, g a)) fs"
  by (induction fs) auto

lemma map_of_graph:
  "a \<in> fst ` set fs \<Longrightarrow> map_of (map (\<lambda>(a, d). (a, g a)) fs) a = Some (g a)"
  by (induction fs) auto

lemma map_of_rev_graph:
  "a \<in> fst ` set fs \<Longrightarrow> map_of (rev (map (\<lambda>(a, d). (a, g a)) fs)) a = Some (g a)"
proof -
  assume "a \<in> fst ` set fs"
  then have "a \<in> fst ` set (rev fs)" by simp
  then have "map_of (map (\<lambda>(a, d). (a, g a)) (rev fs)) a = Some (g a)" by (rule map_of_graph)
  then show ?thesis by (simp add: rev_map)
qed

lemma snapshot_new_instance: "snapshot (new_instance model cs) = py_dict cs"
  by (simp add: snapshot_def new_instance_def py_dict_def)

lemma map_of_py_dict: "map_of (py_dict kvs) = map_of (rev kvs)"
  by (simp add: py_dict_def map_of_foldl_update)

lemma keys_py_dict: "fst ` set (py_dict kvs) = fst ` set kvs"
  by (simp add: py_dict_def keys_foldl_update)

lemma map_of_rev_lookups:
  "a \<in> set ks \<Longrightarrow> map_of (rev (map (\<lambda>k. (k, g k)) ks)) a = Some (g a)"
proof -
  assume "a \<in> set ks"
  then have "a \<in> set (rev ks)" by simp
  then have "map_of (map (\<lambda>k. (k, g k)) (rev ks)) a = Some (g a)"
    by (induction "rev ks" arbitrary: ks) (auto simp: map_of_map_restrict)
  then show ?thesis by (simp add: rev_map)
qed

lemma get_instance_result:
  assumes keys: "set (map fst flds) = set (map fst (source_fields model))"
    and stored: "set (map fst (source_fields model)) \<subseteq> fst ` set (attrs row)"
  shows "get_instance model flds row
     = Inr (new_instance model (map (\<lambda>(a, d). (a, stored_value row a)) (source_fields model)))"
proof -
  let ?kvs = "map (\<lambda>k. (k, the (map_of (attrs row) k))) (map fst flds)"
  have g: "getattrs row (map fst flds) = Inr ?kvs"
    using keys stored by (intro getattrs_all) simp
  have k: "fst ` set (py_dict ?kvs) = set (map fst (source_fields model))"
    using keys by (simp add: keys_py_dict image_image)
  then have ok: "list_all (\<lambda>k. k \<in> set (map fst (source_fields model))) (map fst (py_dict ?kvs))"
    by (simp add: list_all_iff)
  have v: "map_of (py_dict ?kvs) a = Some (stored_value row a)"
    if "a \<in> set (map fst (source_fields model))" for a
  proof -
    from that keys have "a \<in> set (map fst flds)" by simp
    then show ?thesis
      unfolding map_of_py_dict stored_value_def by (rule map_of_rev_lookups)
  qed
  have "map (\<lambda>(a, dflt). (a, case map_of (py_dict ?kvs) a of None \<Rightarrow> dflt | Some v \<Rightarrow> v))
          (source_fields model)
      = map (\<lambda>(a, d). (a, stored_value row a)) (source_fields model)"
  proof (rule map_cong [OF refl])
    fix x assume x: "x \<in> set (source_fields model)"
    obtain a d where ad: "x = (a, d)" by (cases x)
    with x have "a \<in> set (map fst (source_fields model))" by force
    from v [OF this] ad
    show "(case x of (a, dflt) \<Rightarrow> (a, case map_of (py_dict ?kvs) a of None \<Rightarrow> dflt | Some v \<Rightarrow> v))
        = (case x of (a, d) \<Rightarrow> (a, stored_value row a))"
      by simp
  qed
  with g ok show ?thesis by (simp only: get_instance_def model_init_kwargs_def sum.case if_True)
qed

lemma history_object_result:
  assumes stored: "set (map fst (source_fields model)) \<subseteq> fst ` set (attrs row)"
  shows "history_object model row
     = Inr (new_instance model (map (\<lambda>(a, d). (a, stored_value row a)) (source_fields model)))"
proof -
  have g: "getattrs row (map fst (source_fields model))
      = Inr (map (\<lambda>k. (k, the (map_of (attrs row) k))) (map fst (source_fields model)))"
    using stored by (rule getattrs_all)
  have vals: "map snd (map (\<lambda>k. (k, the (map_of (attrs row) k))) (map fst (source_fields model)))
      = map (\<lambda>(a, d). stored_value row a) (source_fields model)"
    by (simp add: stored_value_def case_prod_beta comp_def)
  have len: "\<not> length (source_fields model)
      < length (map (\<lambda>(a, d). stored_value row a) (source_fields model))"
    by simp
  show ?thesis
    unfolding history_object_def g sum.case vals model_init_args_def assign_args_same_keys
    using len by (simp only: if_False)
qed

lemma snapshot_reconstructed:
  assumes stored: "set (map fst (source_fields model)) \<subseteq> fst ` set (attrs row)"
  defines "i \<equiv> new_instance model (map (\<lambda>(a, d). (a, stored_value row a)) (source_fields model))"
  shows "(\<forall>a \<in> set (map fst (source_fields model)). map_of (snapshot i) a = map_of (attrs row) a)
    \<and> fst ` set (snapshot i) = set (map fst (source_fields model))"
proof -
  have "map_of (snapshot i) a = map_of (attrs row) a"
    if a: "a \<in> set (map fst (source_fields model))" for a
  proof -
    from a have "a \<in> fst ` set (source_fields model)" by simp
    then have "map_of (snapshot i) a = Some (stored_value row a)"
      by (simp add: i_def snapshot_new_instance map_of_py_dict map_of_rev_graph)
    moreover from a stored obtain v where "map_of (attrs row) a = Some v"
      by (metis domD dom_map_of_conv_image_fst subsetD)
    ultimately show ?thesis by (simp add: stored_value_def)
  qed
  moreover have "fst ` set (snapshot i) = set (map fst (source_fields model))"
    by (auto simp: i_def snapshot_new_instance keys_py_dict image_image case_prod_beta)
  ultimately show ?thesis by blast
qed

text \<open>
  C7. Let the keys of the dictionary of copied fields be the attribute names of the
  model's columns (as \<open>copy_fields\<close> delivers them, see \<open>copy_fields_keys\<close>), and let
  the audit row store a value for each of them (as every row the recorder writes for an
  instance of the model does). Then both reconstructors, the property \<open>instance\<close> and the
  descriptor \<open>history_object\<close>, return the same transient instance, and the snapshot of
  that instance has exactly the model's columns, each with the value the audit row stores.
\<close>

theorem reconstructor_roundtrip:
  assumes "set (map fst flds) = set (map fst (source_fields model))"
    and "set (map fst (source_fields model)) \<subseteq> fst ` set (attrs row)"
  shows "\<exists>i. get_instance model flds row = Inr i
           \<and> history_object model row = Inr i
           \<and> (\<forall>a \<in> set (map fst (source_fields model)).
                 map_of (snapshot i) a = map_of (attrs row) a)
           \<and> fst ` set (snapshot i) = set (map fst (source_fields model))"
  using get_instance_result [OF assms] history_object_result [OF assms(2)]
    snapshot_reconstructed [OF assms(2)]
  by blast

text \<open>
  The row recorded for the creation of the widget: both reconstructors give the widget
  back, and its snapshot is the stored one.
\<close>

theorem reconstructor_roundtrip_witness:
  "set (map fst widget_fields) = set (map fst (source_fields widget_model))
   \<and> set (map fst (source_fields widget_model)) \<subseteq> fst ` set (attrs (audit_row_of widget ''+''))
   \<and> get_instance widget_model widget_fields (audit_row_of widget ''+'') = Inr widget
   \<and> history_object widget_model (audit_row_of widget ''+'') = Inr widget
   \<and> snapshot widget = attrs (audit_row_of widget ''+'')"
proof -
  have k: "set (map fst widget_fields) = set (map fst (source_fields widget_model))"
    by (simp add: widget_fields_def widget_model_def)
  have s: "set (map fst (source_fields widget_model)) \<subseteq> fst ` set (attrs (audit_row_of widget ''+''))"
    by (simp add: widget_model_def audit_row_of_def snapshot_def widget_def)
  from reconstructor_roundtrip [OF k s]
  obtain i where i: "get_instance widget_model widget_fields (audit_row_of widget ''+'') = Inr i"
    "history_object widget_model (audit_row_of widget ''+'') = Inr i"
    by blast
  have "get_instance widget_model widget_fields (audit_row_of widget ''+'') = Inr widget"
    by (simp add: get_instance_def getattr_row_def model_init_kwargs_def py_dict_def
        new_instance_def widget_fields_def widget_model_def audit_row_of_def snapshot_def
        widget_def)
  with i have "i = widget" by simp
  with i k s show ?thesis by (simp add: audit_row_of_def)
qed

end
